theory Spec2Isabelle
  imports Main "HOL-Library.Word" "HOL-Library.Signed_Division"
begin

section \<open>Primitive data\<close>

text \<open>
  The validators of \<^verbatim>\<open>src/chain/branchchain.cpp\<close> and the block signer of the mining
  RPC file are embedded as HOL functions.  Byte vectors are lists of 8-bit words, hashes
  are 256-bit words (\<^verbatim>\<open>uint256()\<close> and \<^verbatim>\<open>SetNull\<close> give 0), amounts are the 64-bit
  \<^verbatim>\<open>int64_t\<close> of \<^verbatim>\<open>CellAmount\<close>: addition wraps and every comparison reads the
  word as two's complement through \<open>sint\<close>.  Block heights are the 32-bit \<^verbatim>\<open>int\<close> of the
  source: their difference wraps and is read as two's complement.
\<close>

type_synonym byte = "8 word"

type_synonym valtype = "byte list"

type_synonym uint256 = "256 word"

type_synonym CellAmount = "64 word"

text \<open>
  A validator either returns \<^verbatim>\<open>true\<close>, or records a rejection in the validation state
  (\<^verbatim>\<open>state.DoS(level, false, code, reason)\<close>; \<^verbatim>\<open>state.Invalid\<close> is level 0), or returns
  \<^verbatim>\<open>false\<close> without touching the state (plain \<^verbatim>\<open>return false\<close> and \<^verbatim>\<open>return error(..)\<close>),
  or does not return at all: an exception leaves the function, or a vector or pointer is
  read where it has no element.  The reason of a rejection is the string literal of the
  source; where the source formats it with \<^verbatim>\<open>strprintf\<close>, it is the format string.
\<close>

datatype reject_code = REJECT_INVALID | REJECT_DUPLICATE | REJECT_NONSTANDARD

datatype outcome =
    Accept
  | Reject nat reject_code string
  | Fail
  | Crash

section \<open>Scripts\<close>

text \<open>
  Modelled from the spec: the class \<^verbatim>\<open>CellScript\<close> and its opcode scanner \<^verbatim>\<open>GetOp\<close> are
  not among the sources (the specification lists them as external scan helpers that
  parse the marker opcodes out of output scripts).  A script is kept as the sequence of
  results that successive \<^verbatim>\<open>GetOp\<close> calls yield: an opcode with the data it pushes, or a
  truncated push at which \<^verbatim>\<open>GetOp\<close> fails.  As in the Bitcoin decoder, a failing \<^verbatim>\<open>GetOp\<close>
  leaves \<^verbatim>\<open>OP_INVALIDOPCODE\<close> in the opcode and an empty vector; no caller below reads the
  script again after a failure.
\<close>

datatype opcodetype =
    OP_RETURN | OP_2DROP | OP_DUP | OP_HASH160
  | OP_CREATE_BRANCH | OP_TRANS_BRANCH | OP_MINE_BRANCH_MORTGAGE | OP_MINE_BRANCH_COIN
  | OP_REDEEM_MORTGAGE | OP_CONTRACT | OP_INVALIDOPCODE
  | OP_PUSH nat
  | OP_OTHER nat

datatype script_item = Item opcodetype valtype | Truncated

type_synonym CellScript = "script_item list"

fun GetOp :: "CellScript \<Rightarrow> bool \<times> opcodetype \<times> valtype \<times> CellScript" where
  "GetOp [] = (False, OP_INVALIDOPCODE, [], [])"
| "GetOp (Truncated # pc) = (False, OP_INVALIDOPCODE, [], Truncated # pc)"
| "GetOp (Item opcode vch # pc) = (True, opcode, vch, pc)"

section \<open>Transactions\<close>

text \<open>
  Modelled from the spec: \<^verbatim>\<open>CellTransaction\<close> is declared outside the sources.  Its
  \<^verbatim>\<open>nVersion\<close> discriminator, tested by \<^verbatim>\<open>IsReport()\<close>, \<^verbatim>\<open>IsProve()\<close>,
  \<^verbatim>\<open>IsBranchChainTransStep2()\<close> and the like, is the transaction type of the
  specification's data model, so the tests exclude one another; the fields are the ones
  the validators read.  A pointer field that may be null is an \<open>option\<close>.
  \<^verbatim>\<open>IsCoinBase\<close> and the null test of an outpoint are those of the Bitcoin transaction
  classes: a single input whose \<^verbatim>\<open>prevout\<close> has a null hash and the index \<^verbatim>\<open>(uint32_t) -1\<close>.
\<close>

datatype tx_type =
    NORMAL | CREATE_BRANCH | TRANS_BRANCH_STEP1 | TRANS_BRANCH_STEP2 | MINE_BRANCH_MORTGAGE
  | SYNC_BRANCH_INFO | REPORT_CHEAT | PROVE | REDEEM_MORTGAGE_STATEMENT | REPORT_REWARD
  | LOCK_MORTGAGE_MINE_COIN | UNLOCK_MORTGAGE_MINE_COIN | PUBLISH_CONTRACT | CALL_CONTRACT

datatype ReportType =
    REPORT_TX | REPORT_COINBASE | REPORT_MERKLETREE | REPORT_CONTRACT_DATA
  | REPORT_UNKNOWN int

record CellOutPoint =
  hash :: uint256
  n :: "32 word"

record CellTxIn =
  prevout :: CellOutPoint
  scriptSig :: CellScript
  nSequence :: "32 word"

record CellTxOut =
  nValue :: CellAmount
  scriptPubKey :: CellScript

record CellPartialMerkleTree =
  nTransactions :: "32 word"
  vBits :: "bool list"
  vHash :: "uint256 list"

record CellSpvProof =
  blockhash :: uint256
  pmt :: CellPartialMerkleTree

record ReportData =
  reporttype :: ReportType
  reportedBranchId :: uint256
  reportedBlockHash :: uint256
  reportedTxHash :: uint256

record ProveDataItem =
  blockHash :: uint256
  tx :: valtype
  pCSP :: CellSpvProof

record ContractProveData =
  contractPrevData :: valtype
  coins :: CellAmount
  prevDataSPV :: CellPartialMerkleTree
  dataSPV :: CellPartialMerkleTree

record ProveData =
  provetype :: ReportType
  branchId :: uint256
  blockHash :: uint256
  txHash :: uint256
  vectProveData :: "ProveDataItem list"
  vtxData :: valtype
  vecBlockTxProve :: "ProveDataItem list list"
  contractData :: "ContractProveData option"

record CellBlockHeader =
  hashMerkleRoot :: uint256
  hashMerkleRootWithPrevData :: uint256
  hashMerkleRootWithData :: uint256
  nTime :: "32 word"
  prevoutStake :: CellOutPoint
  vchBlockSig :: CellScript

record CellBranchBlockInfo = CellBlockHeader +
  blockHeight :: "32 word"
  branchID :: uint256
  vchStakeTxData :: valtype

record CellTransaction =
  nVersion :: tx_type
  vin :: "CellTxIn list"
  vout :: "CellTxOut list"
  sendToBranchid :: string
  sendToTxHexData :: string
  fromBranchId :: string
  fromTx :: valtype
  inAmount :: CellAmount
  pPMT :: "CellSpvProof option"
  pBranchBlockData :: "CellBranchBlockInfo option"
  pReportData :: "ReportData option"
  pProveData :: "ProveData option"
  reporttxid :: uint256
  provetxid :: uint256
  coinpreouthash :: uint256
  contractAddr :: valtype
  contractOut :: CellAmount

definition IsBranchChainTransStep1 :: "CellTransaction \<Rightarrow> bool" where
  "IsBranchChainTransStep1 t = (nVersion t = TRANS_BRANCH_STEP1)"

definition IsBranchChainTransStep2 :: "CellTransaction \<Rightarrow> bool" where
  "IsBranchChainTransStep2 t = (nVersion t = TRANS_BRANCH_STEP2)"

definition IsMortgage :: "CellTransaction \<Rightarrow> bool" where
  "IsMortgage t = (nVersion t = MINE_BRANCH_MORTGAGE)"

definition IsSyncBranchInfo :: "CellTransaction \<Rightarrow> bool" where
  "IsSyncBranchInfo t = (nVersion t = SYNC_BRANCH_INFO)"

definition IsReport :: "CellTransaction \<Rightarrow> bool" where
  "IsReport t = (nVersion t = REPORT_CHEAT)"

definition IsProve :: "CellTransaction \<Rightarrow> bool" where
  "IsProve t = (nVersion t = PROVE)"

definition IsReportReward :: "CellTransaction \<Rightarrow> bool" where
  "IsReportReward t = (nVersion t = REPORT_REWARD)"

definition IsLockMortgageMineCoin :: "CellTransaction \<Rightarrow> bool" where
  "IsLockMortgageMineCoin t = (nVersion t = LOCK_MORTGAGE_MINE_COIN)"

definition IsUnLockMortgageMineCoin :: "CellTransaction \<Rightarrow> bool" where
  "IsUnLockMortgageMineCoin t = (nVersion t = UNLOCK_MORTGAGE_MINE_COIN)"

definition IsCallContract :: "CellTransaction \<Rightarrow> bool" where
  "IsCallContract t = (nVersion t = CALL_CONTRACT)"

definition IsSmartContract :: "CellTransaction \<Rightarrow> bool" where
  "IsSmartContract t = (nVersion t = PUBLISH_CONTRACT \<or> nVersion t = CALL_CONTRACT)"

definition IsNull :: "CellOutPoint \<Rightarrow> bool" where
  "IsNull p = (hash p = 0 \<and> n p = - 1)"

definition IsCoinBase :: "CellTransaction \<Rightarrow> bool" where
  "IsCoinBase t = (length (vin t) = 1 \<and> IsNull (prevout (hd (vin t))))"

section \<open>JSON values and the cross-chain RPC client\<close>

text \<open>
  The part of \<^verbatim>\<open>UniValue\<close> the validators use.  A number holds the integer the reply
  wrote; \<^verbatim>\<open>get_int\<close> throws unless it fits the 32-bit \<^verbatim>\<open>int\<close> (a numeral with a fraction
  behaves like one out of range).  \<^verbatim>\<open>find_value\<close> gives the null value for a missing key
  and for a value that is not an object.
\<close>

datatype UniValue =
    VNULL
  | VSTR string
  | VNUM int
  | VBOOL bool
  | VOBJ "(string \<times> UniValue) list"
  | VARR "UniValue list"

fun find_value :: "UniValue \<Rightarrow> string \<Rightarrow> UniValue" where
  "find_value (VOBJ kvs) name = (case map_of kvs name of None \<Rightarrow> VNULL | Some v \<Rightarrow> v)"
| "find_value _ name = VNULL"

fun isNull :: "UniValue \<Rightarrow> bool" where
  "isNull VNULL = True"
| "isNull _ = False"

fun isStr :: "UniValue \<Rightarrow> bool" where
  "isStr (VSTR s) = True"
| "isStr _ = False"

fun isNum :: "UniValue \<Rightarrow> bool" where
  "isNum (VNUM i) = True"
| "isNum _ = False"

fun get_str :: "UniValue \<Rightarrow> string option" where
  "get_str (VSTR s) = Some s"
| "get_str _ = None"

fun get_int :: "UniValue \<Rightarrow> 32 word option" where
  "get_int (VNUM i) = (if - (2 ^ 31) \<le> i \<and> i < 2 ^ 31 then Some (word_of_int i) else None)"
| "get_int _ = None"

record CellRPCConfig =
  strIp :: string
  iPort :: int
  strUser :: string
  strPassword :: string
  strWallet :: string

definition IsValid :: "CellRPCConfig \<Rightarrow> bool" where
  "IsValid rpccfg = (if strIp rpccfg = [] \<or> iPort rpccfg = 0 then False else True)"

text \<open>
  \<^verbatim>\<open>CellBaseChainParams::MAIN\<close> is the name of the main chain, the string that
  \<^verbatim>\<open>CheckUnlockMortgageMineCoinTx\<close> writes as a literal in its place.
\<close>

definition MAIN :: string where
  "MAIN = ''main''"

definition endl :: string where
  "endl = [CHR 0x0A]"

section \<open>Collaborators outside the sources\<close>

text \<open>
  Functions and constants that the embedded code calls and whose bodies are not among
  the sources are parameters, collected in one record: hashing and (de)serialisation,
  the partial Merkle tree, the script interpreter, the contract engine, the JSON-RPC
  transport and the consensus constants.  A decoder yields \<open>None\<close> where the C++
  returns \<^verbatim>\<open>false\<close> (\<^verbatim>\<open>DecodeHexTx\<close>, \<^verbatim>\<open>SafeParseHashV\<close>) or throws (the stream
  operator \<^verbatim>\<open>>>\<close>, \<^verbatim>\<open>GetScriptInt64\<close>).  The data written to a \<^verbatim>\<open>CellHashWriter\<close> is
  the list of the items streamed into it.
\<close>

datatype hw_item = HW_type ReportType | HW_hash uint256

record ext =
  GetHash :: "CellTransaction \<Rightarrow> uint256"
  DecodeHexTx :: "string \<Rightarrow> CellTransaction option"
  DecodeTx :: "valtype \<Rightarrow> CellTransaction option"
  DecodeVtx :: "valtype \<Rightarrow> CellTransaction list option"
  HashWriter :: "hw_item list \<Rightarrow> uint256"
  ToString :: "uint256 \<Rightarrow> string"
  uint256_of :: "valtype \<Rightarrow> uint256"
  SafeParseHashV :: "UniValue \<Rightarrow> uint256 option"
  ExtractMatches :: "CellPartialMerkleTree \<Rightarrow> uint256 \<times> uint256 list \<times> 32 word list"
  VecTxMerkleRoot :: "CellTransaction list \<Rightarrow> uint256 \<times> bool"
  GetTxHashWithPrevData :: "uint256 \<Rightarrow> valtype \<times> CellAmount \<Rightarrow> uint256"
  GetTxHashWithData :: "uint256 \<Rightarrow> valtype \<Rightarrow> uint256"
  ExecuteContract :: "CellTransaction \<Rightarrow> int \<Rightarrow> CellAmount \<Rightarrow> 32 word \<Rightarrow> 32 word \<Rightarrow> valtype
                        \<Rightarrow> valtype option"
  IsCoinBranchTranScript :: "CellScript \<Rightarrow> bool"
  GetScriptInt64 :: "opcodetype \<Rightarrow> valtype \<Rightarrow> 64 word option"
  GetScriptForDestination :: "valtype \<Rightarrow> CellScript"
  IsContract :: "CellScript \<Rightarrow> bool"
  IsContractChange :: "CellScript \<Rightarrow> bool"
  GetContractAddr :: "CellScript \<Rightarrow> valtype option"
  ScriptCheck :: "CellScript \<Rightarrow> CellAmount \<Rightarrow> CellTransaction \<Rightarrow> nat \<Rightarrow> bool"
  GetBlockHash :: "CellBlockHeader \<Rightarrow> uint256"
  CallRPC :: "CellRPCConfig \<Rightarrow> string \<Rightarrow> UniValue list \<Rightarrow> UniValue"
  MAX_MONEY :: CellAmount
  BRANCH_CHAIN_MATURITY :: "32 word"
  REPORT_OUTOF_HEIGHT :: int

section \<open>SPV proofs\<close>

text \<open>
  \<^verbatim>\<open>CheckSpvProof\<close>: \<^verbatim>\<open>ExtractMatches\<close> fills the matched hashes and their indices and
  returns the root it computed.  The result is the \<^verbatim>\<open>int\<close> the function returns;
  \<open>None\<close> is the read of \<^verbatim>\<open>vIndex[0]\<close> in an empty vector.
\<close>

definition CheckSpvProof :: "ext \<Rightarrow> uint256 \<Rightarrow> CellPartialMerkleTree \<Rightarrow> uint256 \<Rightarrow> int option" where
  "CheckSpvProof x merkleRoot tree querytxhash =
     (case ExtractMatches x tree of
        (root, vMatch, vIndex) \<Rightarrow>
          if root \<noteq> merkleRoot then Some (- 1)
          else if querytxhash \<notin> set vMatch then Some (- 1)
          else if length vIndex > 1 then Some (- 1)
          else (case vIndex of [] \<Rightarrow> None | i # _ \<Rightarrow> Some (sint i)))"

section \<open>Report and prove flag keys\<close>

text \<open>
  \<^verbatim>\<open>GetReportTxHashKey\<close> and \<^verbatim>\<open>GetProveTxHashKey\<close>.  \<open>None\<close> is the dereference of a
  null \<^verbatim>\<open>pReportData\<close> or \<^verbatim>\<open>pProveData\<close>.
\<close>

definition GetReportTxHashKey :: "ext \<Rightarrow> CellTransaction \<Rightarrow> uint256 option" where
  "GetReportTxHashKey x t =
     (if \<not> IsReport t then Some 0
      else case pReportData t of
        None \<Rightarrow> None
      | Some r \<Rightarrow>
          let ss = [HW_type (reporttype r)];
              ss = (if reporttype r = REPORT_TX \<or> reporttype r = REPORT_COINBASE
                       \<or> reporttype r = REPORT_MERKLETREE \<or> reporttype r = REPORT_CONTRACT_DATA
                    then ss @ [HW_hash (reportedBranchId r), HW_hash (reportedBlockHash r),
                               HW_hash (reportedTxHash r)]
                    else ss)
          in Some (HashWriter x ss))"

definition GetProveTxHashKey :: "ext \<Rightarrow> CellTransaction \<Rightarrow> uint256 option" where
  "GetProveTxHashKey x t =
     (case pProveData t of
        None \<Rightarrow> None
      | Some p \<Rightarrow>
          let ss = [HW_type (provetype p)];
              ss = (if provetype p = REPORT_TX \<or> provetype p = REPORT_COINBASE
                       \<or> provetype p = REPORT_MERKLETREE
                    then ss @ [HW_hash (branchId p), HW_hash (blockHash p), HW_hash (txHash p)]
                    else ss)
          in Some (HashWriter x ss))"

section \<open>The branch database\<close>

text \<open>
  \<^verbatim>\<open>pBranchDb\<close> holds the flag table \<^verbatim>\<open>mReortTxFlag\<close> and one \<^verbatim>\<open>BranchData\<close> per
  branch; a \<^verbatim>\<open>BranchData\<close> maps block hashes to \<^verbatim>\<open>BranchBlockData\<close> in \<^verbatim>\<open>mapHeads\<close>.  A
  \<^verbatim>\<open>std::map\<close> is a partial function: \<^verbatim>\<open>count\<close> asks whether the key is in its domain.
  \<^verbatim>\<open>GetBranchBlockData\<close> looks the hash up in \<^verbatim>\<open>mapHeads\<close> and gives a null pointer
  when it is absent; \<^verbatim>\<open>GetBranchData\<close> gives a branch without blocks for an unknown branch
  (every caller but the duplicate check asks \<^verbatim>\<open>HasBranchData\<close> first).  The cache \<^verbatim>\<open>BranchCache\<close> carries its own flag table; its method
  \<^verbatim>\<open>HasInCache\<close> is a field.  Modelled from the spec: the flag constants are declared
  outside the sources; a flag is REPORTED or PROVED.
\<close>

datatype report_flag = RP_FLAG_REPORTED | RP_FLAG_PROVED

record BranchBlockData =
  header :: CellBlockHeader
  nHeight :: "32 word"
  mBlockHash :: uint256
  pStakeTx :: "CellTransaction option"
  mapReportStatus :: "uint256 \<rightharpoonup> report_flag"

record BranchData =
  mapHeads :: "uint256 \<rightharpoonup> BranchBlockData"

record BranchDb =
  mReortTxFlag :: "uint256 \<rightharpoonup> report_flag"
  mapBranchsData :: "uint256 \<rightharpoonup> BranchData"

record BranchCache =
  HasInCache :: "CellTransaction \<Rightarrow> bool"
  mReortTxFlagCache :: "uint256 \<rightharpoonup> report_flag"

definition HasBranchData :: "BranchDb \<Rightarrow> uint256 \<Rightarrow> bool" where
  "HasBranchData db branchHash = (mapBranchsData db branchHash \<noteq> None)"

definition GetBranchData :: "BranchDb \<Rightarrow> uint256 \<Rightarrow> BranchData" where
  "GetBranchData db branchHash =
     (case mapBranchsData db branchHash of
        None \<Rightarrow> \<lparr> mapHeads = Map.empty \<rparr>
      | Some b \<Rightarrow> b)"

definition GetBranchBlockData :: "BranchData \<Rightarrow> uint256 \<Rightarrow> BranchBlockData option" where
  "GetBranchBlockData branchdata blockhash' = mapHeads branchdata blockhash'"

section \<open>Money\<close>

text \<open>
  Modelled from the spec: \<^verbatim>\<open>GetValueOut\<close> is a method of the transaction class, outside
  the sources; it is the sum of the output values, as the specification writes it
  (\<^verbatim>\<open>sum(block.vtx[0].vout)\<close>).  \<^verbatim>\<open>MoneyRange\<close> is the range test of \<^verbatim>\<open>amount.h\<close>, from 0 to
  \<^verbatim>\<open>MAX_MONEY\<close>.
\<close>

definition MoneyRange :: "ext \<Rightarrow> CellAmount \<Rightarrow> bool" where
  "MoneyRange x v = (0 \<le> sint v \<and> sint v \<le> sint (MAX_MONEY x))"

definition GetValueOut :: "CellTransaction \<Rightarrow> CellAmount" where
  "GetValueOut t = sum_list (map nValue (vout t))"

section \<open>Validation of prove transactions\<close>

text \<open>
  \<^verbatim>\<open>CheckTransactionProveWithProveData\<close>.  The first loop walks the inputs together with
  their prove-data items (\<^verbatim>\<open>vectProveData[i + baseIndex]\<close>), carrying the input index
  and the sums \<^verbatim>\<open>nInAmount\<close> and \<^verbatim>\<open>nContractIn\<close>; the second walks the outputs, carrying
  \<^verbatim>\<open>nValueOut\<close> and \<^verbatim>\<open>nContractOut\<close>.  A result \<open>Inl\<close> is the way the function fails,
  \<open>Inr\<close> the values it has computed.
\<close>

fun prove_inputs ::
  "ext \<Rightarrow> BranchData \<Rightarrow> CellTransaction \<Rightarrow> CellScript \<Rightarrow> nat \<Rightarrow> (CellTxIn \<times> ProveDataItem) list
     \<Rightarrow> CellAmount \<Rightarrow> CellAmount \<Rightarrow> outcome + (CellAmount \<times> CellAmount)" where
  "prove_inputs x branchData pProveTx contractScript i [] nInAmount nContractIn =
     Inr (nInAmount, nContractIn)"
| "prove_inputs x branchData pProveTx contractScript i ((txin, provDataItem) # rest)
       nInAmount nContractIn =
     (if mapHeads branchData (ProveDataItem.blockHash provDataItem) = None
      then Inl (Reject 0 REJECT_INVALID ''proveitem's block not exist'')
      else case DecodeTx x (tx provDataItem) of
        None \<Rightarrow> Inl Crash
      | Some pTx \<Rightarrow>
         (case GetBranchBlockData branchData (blockhash (pCSP provDataItem)) of
            None \<Rightarrow> Inl Fail
          | Some pBlockData \<Rightarrow>
             (case CheckSpvProof x (hashMerkleRoot (header pBlockData)) (pmt (pCSP provDataItem))
                     (GetHash x pTx) of
                None \<Rightarrow> Inl Crash
              | Some r \<Rightarrow>
                 if r < 0 then Inl (Reject 0 REJECT_INVALID ''Check Prove ReportTx spv check fail'')
                 else if GetHash x pTx \<noteq> hash (prevout txin)
                 then Inl (Reject 0 REJECT_INVALID ''Check Prove ReportTx provide tx not match'')
                 else if unat (n (prevout txin)) \<ge> length (vout pTx)
                 then Inl (Reject 0 REJECT_INVALID ''Check Prove ReportTx '')
                 else
                   let scriptPubKey' = scriptPubKey (vout pTx ! unat (n (prevout txin)));
                       amount = nValue (vout pTx ! unat (n (prevout txin)));
                       nInAmount' = nInAmount + amount
                   in if IsContract x scriptPubKey' \<and> scriptPubKey' \<noteq> contractScript
                      then Inl (Reject 0 REJECT_INVALID ''Invalid contract inpoint'')
                      else
                        let nContractIn' =
                              (if IsContract x scriptPubKey' then nContractIn + amount
                               else nContractIn)
                        in if \<not> ScriptCheck x scriptPubKey' amount pProveTx i
                              \<and> IsCallContract pProveTx
                              \<and> GetContractAddr x scriptPubKey' = None
                           then Inl (Reject 0 REJECT_NONSTANDARD
                                  ''check smartcontract sign fail, contract addr fail'')
                           else if \<not> ScriptCheck x scriptPubKey' amount pProveTx i
                              \<and> IsCallContract pProveTx
                              \<and> GetContractAddr x scriptPubKey' \<noteq> Some (contractAddr pProveTx)
                           then Inl (Reject 0 REJECT_INVALID
                                  ''check smartcontract sign fail, contract addr error'')
                           else prove_inputs x branchData pProveTx contractScript (Suc i) rest
                                  nInAmount' nContractIn')))"

fun prove_outputs ::
  "ext \<Rightarrow> CellTransaction \<Rightarrow> CellTxOut list \<Rightarrow> CellAmount \<Rightarrow> CellAmount
     \<Rightarrow> outcome + (CellAmount \<times> CellAmount)" where
  "prove_outputs x pProveTx [] nValueOut nContractOut = Inr (nValueOut, nContractOut)"
| "prove_outputs x pProveTx (txout # rest) nValueOut nContractOut =
     (if sint (nValue txout) < 0
      then Inl (Reject 100 REJECT_INVALID ''CheckProveReportTx bad-txns-vout-negative'')
      else if sint (nValue txout) > sint (MAX_MONEY x)
      then Inl (Reject 100 REJECT_INVALID ''CheckProveReportTx bad-txns-vout-toolarge'')
      else if \<not> MoneyRange x (nValueOut + nValue txout)
      then Inl (Reject 100 REJECT_INVALID ''CheckProveReportTx bad-txns-txouttotal-toolarge'')
      else if IsContractChange x (scriptPubKey txout)
              \<and> GetContractAddr x (scriptPubKey txout) \<noteq> Some (contractAddr pProveTx)
      then Inl (Reject 0 REJECT_INVALID ''Invalid contract out public key'')
      else prove_outputs x pProveTx rest (nValueOut + nValue txout)
             (if IsContractChange x (scriptPubKey txout) then nContractOut + nValue txout
              else nContractOut))"

definition CheckTransactionProveWithProveData ::
  "ext \<Rightarrow> CellTransaction \<Rightarrow> ProveDataItem list \<Rightarrow> BranchData \<Rightarrow> bool \<Rightarrow> outcome + CellAmount" where
  "CheckTransactionProveWithProveData x pProveTx vectProveData' branchData jumpFrist =
     (if IsCoinBase pProveTx
      then Inl (Reject 0 REJECT_INVALID
             ''CheckProveReportTx Prove tx can not a coinbase transaction'')
      else
        let baseIndex = (if jumpFrist then 1 else 0 :: nat) in
        if length vectProveData' \<noteq> length (vin pProveTx) + baseIndex
        then Inl (Reject 0 REJECT_INVALID ''vectProveData size invalid for prove each input'')
        else
          case prove_inputs x branchData pProveTx
                 (GetScriptForDestination x (contractAddr pProveTx)) 0
                 (zip (vin pProveTx) (drop baseIndex vectProveData')) 0 0 of
            Inl e \<Rightarrow> Inl e
          | Inr (nInAmount, nContractIn) \<Rightarrow>
             (case prove_outputs x pProveTx (vout pProveTx) 0 0 of
                Inl e \<Rightarrow> Inl e
              | Inr (nValueOut, nContractOut) \<Rightarrow>
                 if nContractIn - nContractOut \<noteq> contractOut pProveTx
                 then Inl (Reject 0 REJECT_INVALID ''Contract out not match'')
                 else if \<not> MoneyRange x nValueOut
                 then Inl (Reject 100 REJECT_INVALID
                        ''CheckProveReportTx bad-txns-txouttotal-toolarge'')
                 else if sint nInAmount < sint nValueOut
                 then Inl (Reject 100 REJECT_INVALID ''value in/out error'')
                 else Inr (nInAmount - nValueOut)))"

text \<open>
  The amount an input is proven to spend, in the words of the specification: the
  prove-data item of the input names a known block of the branch and decodes to a
  transaction that its SPV proof places under the \<^verbatim>\<open>hashMerkleRoot\<close> of a stored header,
  the hash of that transaction is the one the input refers to
  (\<^verbatim>\<open>vin[i].prevout.hash == provided_tx.hash\<close>), and the referenced output exists
  (\<^verbatim>\<open>prevout.n < vout.len\<close>); the amount is the value of that output.
\<close>

definition proven_amount ::
  "ext \<Rightarrow> BranchData \<Rightarrow> CellTxIn \<Rightarrow> ProveDataItem \<Rightarrow> CellAmount option" where
  "proven_amount x branchData txin item =
     (case DecodeTx x (tx item) of
        None \<Rightarrow> None
      | Some pTx \<Rightarrow>
         (case mapHeads branchData (blockhash (pCSP item)) of
            None \<Rightarrow> None
          | Some blockData \<Rightarrow>
             (case CheckSpvProof x (hashMerkleRoot (header blockData)) (pmt (pCSP item))
                     (GetHash x pTx) of
                None \<Rightarrow> None
              | Some r \<Rightarrow>
                 if 0 \<le> r \<and> mapHeads branchData (ProveDataItem.blockHash item) \<noteq> None
                    \<and> GetHash x pTx = hash (prevout txin)
                    \<and> unat (n (prevout txin)) < length (vout pTx)
                 then Some (nValue (vout pTx ! unat (n (prevout txin))))
                 else None)))"

text \<open>
  \<^verbatim>\<open>CheckProveSmartContract\<close>.  The contract maps of the prove data are opaque bytes;
  \<^verbatim>\<open>ExecuteContract\<close> yields the final data of the transaction at \<^verbatim>\<open>txIndex\<close>, or
  nothing when it returns \<^verbatim>\<open>false\<close>.
\<close>

definition CheckProveSmartContract ::
  "ext \<Rightarrow> ProveData \<Rightarrow> CellTransaction \<Rightarrow> BranchBlockData \<Rightarrow> outcome" where
  "CheckProveSmartContract x pd proveTx pBlockData =
     (case contractData pd of
        None \<Rightarrow> Crash
      | Some cd \<Rightarrow>
         (case CheckSpvProof x (hashMerkleRootWithPrevData (header pBlockData)) (prevDataSPV cd)
                 (GetTxHashWithPrevData x (GetHash x proveTx) (contractPrevData cd, coins cd)) of
            None \<Rightarrow> Crash
          | Some txIndex \<Rightarrow>
             if txIndex < 0 then Fail
             else
               (case ExecuteContract x proveTx txIndex (coins cd) (nTime (header pBlockData))
                       (nHeight pBlockData) (contractPrevData cd) of
                  None \<Rightarrow> Fail
                | Some finalData \<Rightarrow>
                   (case CheckSpvProof x (hashMerkleRootWithData (header pBlockData)) (dataSPV cd)
                           (GetTxHashWithData x (GetHash x proveTx) finalData) of
                      None \<Rightarrow> Crash
                    | Some txIndexFinal \<Rightarrow>
                       if txIndexFinal < 0 \<or> txIndexFinal \<noteq> txIndex then Fail else Accept))))"

definition CheckProveReportTx :: "ext \<Rightarrow> BranchDb \<Rightarrow> CellTransaction \<Rightarrow> outcome" where
  "CheckProveReportTx x db t =
     (case pProveData t of
        None \<Rightarrow> Fail
      | Some pd \<Rightarrow>
         if \<not> IsProve t \<or> provetype pd \<noteq> REPORT_TX then Fail
         else if \<not> HasBranchData db (branchId pd) then Fail
         else if length (vectProveData pd) < 1
         then Reject 0 REJECT_INVALID ''vectProveData size invalid can not zero''
         else
           (case DecodeTx x (tx (vectProveData pd ! 0)) of
              None \<Rightarrow> Crash
            | Some pProveTx \<Rightarrow>
               if GetHash x pProveTx \<noteq> txHash pd
               then Reject 0 REJECT_INVALID
                      ''Prove tx data error, first tx's hasdid is not eq proved txid''
               else
                 let branchData = GetBranchData db (branchId pd);
                     spvProof = pCSP (vectProveData pd ! 0)
                 in (case GetBranchBlockData branchData (blockhash spvProof) of
                       None \<Rightarrow> Fail
                     | Some pBlockData \<Rightarrow>
                        (case CheckSpvProof x (hashMerkleRoot (header pBlockData)) (pmt spvProof)
                                (GetHash x pProveTx) of
                           None \<Rightarrow> Crash
                         | Some r \<Rightarrow>
                            if r < 0
                            then Reject 0 REJECT_INVALID ''Check Prove ReportTx spv check fail''
                            else
                              (case CheckTransactionProveWithProveData x pProveTx
                                      (vectProveData pd) branchData True of
                                 Inl e \<Rightarrow> e
                               | Inr fee \<Rightarrow>
                                  if IsSmartContract pProveTx
                                  then CheckProveSmartContract x pd pProveTx pBlockData
                                  else Accept)))))"

text \<open>
  \<^verbatim>\<open>CheckProveCoinbaseTx\<close>.  The loop over \<^verbatim>\<open>vtx[2..]\<close> pairs each transaction with
  \<^verbatim>\<open>vecBlockTxProve[i - 2]\<close> and adds its fee to \<^verbatim>\<open>totalFee\<close>.
\<close>

fun prove_block_txs ::
  "ext \<Rightarrow> BranchData \<Rightarrow> (CellTransaction \<times> ProveDataItem list) list \<Rightarrow> CellAmount
     \<Rightarrow> outcome + CellAmount" where
  "prove_block_txs x branchData [] totalFee = Inr totalFee"
| "prove_block_txs x branchData ((toProveTx, vectProveData') # rest) totalFee =
     (case CheckTransactionProveWithProveData x toProveTx vectProveData' branchData False of
        Inl e \<Rightarrow> Inl e
      | Inr fee \<Rightarrow> prove_block_txs x branchData rest (totalFee + fee))"

definition CheckProveCoinbaseTx :: "ext \<Rightarrow> BranchDb \<Rightarrow> CellTransaction \<Rightarrow> outcome" where
  "CheckProveCoinbaseTx x db t =
     (case pProveData t of
        None \<Rightarrow> Fail
      | Some pd \<Rightarrow>
         if \<not> IsProve t
            \<or> \<not> (provetype pd = REPORT_COINBASE \<or> provetype pd = REPORT_MERKLETREE)
         then Fail
         else if \<not> HasBranchData db (branchId pd)
         then Reject 0 REJECT_INVALID ''prove coinbase tx no branchid data''
         else
           let branchData = GetBranchData db (branchId pd) in
           (case mapHeads branchData (blockHash pd) of
              None \<Rightarrow> Reject 0 REJECT_INVALID ''prove coinbase tx no block data''
            | Some branchblockdata \<Rightarrow>
               (case DecodeVtx x (vtxData pd) of
                  None \<Rightarrow> Crash
                | Some vtx \<Rightarrow>
                   if length vtx < 2 then Reject 100 REJECT_INVALID ''invalid vtx size''
                   else if provetype pd = REPORT_COINBASE \<and> GetHash x (vtx ! 0) \<noteq> txHash pd
                   then Reject 100 REJECT_INVALID ''coinbase tx is eq txHash''
                   else if provetype pd = REPORT_MERKLETREE \<and> txHash pd \<noteq> 0
                   then Reject 100 REJECT_INVALID ''merkle poof txhash is invalid,must null''
                   else
                     (case VecTxMerkleRoot x vtx of
                        (hashMerkleRoot2, mutated) \<Rightarrow>
                          if hashMerkleRoot (header branchblockdata) \<noteq> hashMerkleRoot2
                          then Reject 100 REJECT_INVALID ''Invalid merkle tree for vtx''
                          else if mutated
                          then Reject 100 REJECT_INVALID ''duplicate transaction in vtx''
                          else if length vtx \<noteq> length (vecBlockTxProve pd) + 2
                          then Reject 100 REJECT_INVALID ''provide vecblocktxprove size invalid''
                          else
                            (case prove_block_txs x branchData
                                    (zip (drop 2 vtx) (vecBlockTxProve pd)) 0 of
                               Inl e \<Rightarrow> e
                             | Inr totalFee \<Rightarrow>
                                if GetValueOut (vtx ! 0) \<noteq> totalFee
                                then Reject 100 REJECT_INVALID
                                       ''Prove coinbase transaction fail, fee invalid''
                                else Accept)))))"

definition CheckProveTx :: "ext \<Rightarrow> BranchDb \<Rightarrow> CellTransaction \<Rightarrow> outcome" where
  "CheckProveTx x db t =
     (if IsProve t then
        (case pProveData t of
           None \<Rightarrow> Crash
         | Some pd \<Rightarrow>
            if provetype pd = REPORT_TX then CheckProveReportTx x db t
            else if provetype pd = REPORT_COINBASE then CheckProveCoinbaseTx x db t
            else if provetype pd = REPORT_MERKLETREE then CheckProveCoinbaseTx x db t
            else Reject 0 REJECT_INVALID ''Invalid report type'')
      else Accept)"

section \<open>The node\<close>

text \<open>
  The process-wide state the validators read: the chain parameters (\<^verbatim>\<open>Params()\<close>), the
  two command-line switches read through \<^verbatim>\<open>gArgs\<close> (with their defaults already
  applied), the RPC configurations of \<^verbatim>\<open>g_branchChainMan\<close>, the branch database, the
  received-transaction records, the transaction index, the block index and the active
  chain.  \<^verbatim>\<open>chainActive\<close> is its vector of block indexes; a block index is identified
  with its contents, and \<^verbatim>\<open>Contains\<close> compares the entry at the height of the index, a
  height outside the vector giving a null pointer.
\<close>

record CellBlockIndex =
  nHeight :: "32 word"
  phashBlock :: uint256

record node =
  GetBranchId :: string
  IsMainChain :: bool
  GetBranchHash :: uint256
  uncheckbranchtxinverifydb :: bool
  unchecknoconfigbranch :: bool
  mapRpcConfig :: "string \<rightharpoonup> CellRPCConfig"
  pBranchDb :: BranchDb
  IsTxRecvRepeat :: "CellTransaction \<Rightarrow> bool"
  ReadTxDataByTxIndex :: "uint256 \<Rightarrow> CellTransaction option \<times> uint256"
  mapBlockIndex :: "uint256 \<rightharpoonup> CellBlockIndex"
  chainActive :: "CellBlockIndex list"

definition GetRpcConfig :: "node \<Rightarrow> string \<Rightarrow> CellRPCConfig option" where
  "GetRpcConfig nd strName = mapRpcConfig nd strName"

definition Contains :: "CellBlockIndex list \<Rightarrow> CellBlockIndex \<Rightarrow> bool" where
  "Contains vChain pindex =
     (0 \<le> sint (CellBlockIndex.nHeight pindex)
      \<and> sint (CellBlockIndex.nHeight pindex) < int (length vChain)
      \<and> vChain ! nat (sint (CellBlockIndex.nHeight pindex)) = pindex)"

section \<open>Duplicate detection\<close>

text \<open>
  \<^verbatim>\<open>CheckBranchDuplicateTx\<close>.  The four blocks of the function run in order; each
  returns early with its rejection.  \<^verbatim>\<open>pBranchCache\<close> may be null.
\<close>

definition dup_sync :: "ext \<Rightarrow> node \<Rightarrow> CellTransaction \<Rightarrow> BranchCache option \<Rightarrow> outcome" where
  "dup_sync x nd t pBranchCache =
     (if IsSyncBranchInfo t then
        (if (case pBranchCache of None \<Rightarrow> False | Some c \<Rightarrow> HasInCache c t)
         then Reject 0 REJECT_DUPLICATE ''branch block info duplicate''
         else case pBranchBlockData t of
           None \<Rightarrow> Crash
         | Some info \<Rightarrow>
            if mapHeads (GetBranchData (pBranchDb nd) (branchID info))
                 (GetBlockHash x (CellBlockHeader.truncate info)) \<noteq> None
            then Reject 0 REJECT_DUPLICATE ''blockheader info has include before''
            else Accept)
      else Accept)"

definition dup_step2 :: "node \<Rightarrow> CellTransaction \<Rightarrow> outcome" where
  "dup_step2 nd t =
     (if IsBranchChainTransStep2 t \<and> IsTxRecvRepeat nd t
      then Reject 0 REJECT_DUPLICATE ''txn-already-in-records''
      else Accept)"

definition dup_report :: "ext \<Rightarrow> node \<Rightarrow> CellTransaction \<Rightarrow> BranchCache option \<Rightarrow> outcome" where
  "dup_report x nd t pBranchCache =
     (if IsReport t then
        (case GetReportTxHashKey x t of
           None \<Rightarrow> Crash
         | Some reportFlagHash \<Rightarrow>
            if (case pBranchCache of None \<Rightarrow> False
                | Some c \<Rightarrow> mReortTxFlagCache c reportFlagHash \<noteq> None)
            then Reject 0 REJECT_DUPLICATE ''duplicate report in cache''
            else if mReortTxFlag (pBranchDb nd) reportFlagHash \<noteq> None
            then Reject 0 REJECT_DUPLICATE ''duplicate report in db''
            else Accept)
      else Accept)"

definition dup_prove :: "ext \<Rightarrow> node \<Rightarrow> CellTransaction \<Rightarrow> BranchCache option \<Rightarrow> outcome" where
  "dup_prove x nd t pBranchCache =
     (if IsProve t then
        (case GetProveTxHashKey x t of
           None \<Rightarrow> Crash
         | Some proveFlagHash \<Rightarrow>
            if (case pBranchCache of None \<Rightarrow> False
                | Some c \<Rightarrow> mReortTxFlagCache c proveFlagHash = Some RP_FLAG_PROVED)
            then Reject 0 REJECT_DUPLICATE ''duplicate prove in cache''
            else if mReortTxFlag (pBranchDb nd) proveFlagHash = Some RP_FLAG_PROVED
            then Reject 0 REJECT_DUPLICATE ''duplicate prove in db''
            else Accept)
      else Accept)"

definition CheckBranchDuplicateTx ::
  "ext \<Rightarrow> node \<Rightarrow> CellTransaction \<Rightarrow> BranchCache option \<Rightarrow> outcome" where
  "CheckBranchDuplicateTx x nd t pBranchCache =
     (if dup_sync x nd t pBranchCache \<noteq> Accept then dup_sync x nd t pBranchCache
      else if dup_step2 nd t \<noteq> Accept then dup_step2 nd t
      else if dup_report x nd t pBranchCache \<noteq> Accept then dup_report x nd t pBranchCache
      else dup_prove x nd t pBranchCache)"

section \<open>Mortgage scripts\<close>

text \<open>
  \<^verbatim>\<open>GetMortgageMineData\<close> and \<^verbatim>\<open>GetMortgageCoinData\<close> return \<^verbatim>\<open>false\<close> (\<open>None\<close>) or fill
  the hash, the height and the key id.  The height is decoded only when the caller
  passes \<^verbatim>\<open>pnHeight\<close> (\<open>wantHeight\<close>); otherwise the third component is not meaningful.
  The key id is kept as the bytes \<^verbatim>\<open>uint160(vch)\<close> is built from.  The three tests after
  the height are conjunctions as in the source: \<^verbatim>\<open>!GetOp(..) && opcode != OP_2DROP\<close>.
\<close>

definition mortgage_tail ::
  "ext \<Rightarrow> bool \<Rightarrow> valtype \<Rightarrow> CellScript \<Rightarrow> (uint256 \<times> valtype \<times> 64 word) option" where
  "mortgage_tail x wantHeight vchHash pc2 =
     (case GetOp pc2 of
        (ok3, opcode3, vch3, pc3) \<Rightarrow>
          if \<not> ok3 then None
          else
            (case (if wantHeight then GetScriptInt64 x opcode3 vch3 else Some 0) of
               None \<Rightarrow> None
             | Some height \<Rightarrow>
                (case GetOp pc3 of
                   (ok4, opcode4, vch4, pc4) \<Rightarrow>
                     if \<not> ok4 \<and> opcode4 \<noteq> OP_2DROP then None
                     else
                       (case GetOp pc4 of
                          (ok5, opcode5, vch5, pc5) \<Rightarrow>
                            if \<not> ok5 \<and> opcode5 \<noteq> OP_DUP then None
                            else
                              (case GetOp pc5 of
                                 (ok6, opcode6, vch6, pc6) \<Rightarrow>
                                   if \<not> ok6 \<and> opcode6 \<noteq> OP_HASH160 then None
                                   else
                                     (case GetOp pc6 of
                                        (ok7, opcode7, vch7, pc7) \<Rightarrow>
                                          if \<not> ok7 then None
                                          else Some (uint256_of x vchHash, vch7, height)))))))"

definition GetMortgageMineData ::
  "ext \<Rightarrow> CellScript \<Rightarrow> bool \<Rightarrow> (uint256 \<times> valtype \<times> 64 word) option" where
  "GetMortgageMineData x script wantHeight =
     (case GetOp script of
        (ok1, opcode1, vch1, pc1) \<Rightarrow>
          if ok1 = False \<or> opcode1 \<noteq> OP_MINE_BRANCH_MORTGAGE then None
          else
            (case GetOp pc1 of
               (ok2, opcode2, vch2, pc2) \<Rightarrow>
                 if \<not> ok2 \<or> length vch2 \<noteq> 32 then None
                 else mortgage_tail x wantHeight vch2 pc2))"

definition GetMortgageCoinData ::
  "ext \<Rightarrow> CellScript \<Rightarrow> bool \<Rightarrow> (uint256 \<times> valtype \<times> 64 word) option" where
  "GetMortgageCoinData x script wantHeight =
     (case GetOp script of
        (ok1, opcode1, vch1, pc1) \<Rightarrow>
          if ok1 = False \<or> opcode1 \<noteq> OP_MINE_BRANCH_COIN then None
          else
            (case GetOp pc1 of
               (ok2, opcode2, vch2, pc2) \<Rightarrow>
                 if \<not> ok2 \<or> length vch2 \<noteq> 32 then None
                 else mortgage_tail x wantHeight vch2 pc2))"

section \<open>Report rewards\<close>

text \<open>
  \<^verbatim>\<open>CheckReportRewardTransaction\<close>.  \<^verbatim>\<open>ReadTxDataByTxIndex\<close> yields the report transaction
  (or a null pointer) and the hash of the block that confirms it.  \<^verbatim>\<open>REPORT_OUTOF_HEIGHT\<close>
  is declared outside the sources; it is compared as a signed \<^verbatim>\<open>int\<close>, like the heights.
  Reading \<^verbatim>\<open>vout[0]\<close> or \<^verbatim>\<open>vin[0]\<close> of an empty vector, or a null \<^verbatim>\<open>pStakeTx\<close>, is
  \<open>Crash\<close>.  \<^verbatim>\<open>nValueIn / 2\<close> truncates towards zero (\<open>sdiv\<close> on the signed value).
\<close>

definition reward_payout ::
  "ext \<Rightarrow> CellTransaction \<Rightarrow> CellTransaction \<Rightarrow> BranchBlockData \<Rightarrow> outcome" where
  "reward_payout x t ptxReport blockdata =
     (case pStakeTx blockdata of
        None \<Rightarrow> Crash
      | Some stake \<Rightarrow>
         (case vout stake of
            [] \<Rightarrow> Crash
          | stakeout # _ \<Rightarrow>
             (case GetMortgageCoinData x (scriptPubKey stakeout) False of
                None \<Rightarrow> Reject 100 REJECT_INVALID ''invalid-stake-pubkey''
              | Some (coinfromtxid, keyid, height) \<Rightarrow>
                 (case vin t of
                    [] \<Rightarrow> Crash
                  | txin # _ \<Rightarrow>
                     if hash (prevout txin) \<noteq> coinfromtxid \<or> n (prevout txin) \<noteq> 0
                     then Reject 100 REJECT_INVALID ''Invalid-report-reward-input''
                     else
                       (case vout ptxReport of
                          [] \<Rightarrow> Crash
                        | reportout # _ \<Rightarrow>
                           (case vout t of
                              [] \<Rightarrow> Crash
                            | txout # _ \<Rightarrow>
                               let nValueIn = nValue stakeout;
                                   nReporterValue = sint nValueIn sdiv 2
                               in if scriptPubKey txout \<noteq> scriptPubKey reportout
                                  then Reject 100 REJECT_INVALID ''vout[0]-must-to-reporter''
                                  else if sint (nValue txout) < nReporterValue
                                  then Reject 100 REJECT_INVALID ''invalid-reporter-out-value''
                                  else Accept))))))"

definition CheckReportRewardTransaction ::
  "ext \<Rightarrow> node \<Rightarrow> CellTransaction \<Rightarrow> CellBlockIndex \<Rightarrow> outcome" where
  "CheckReportRewardTransaction x nd t pindex =
     (if \<not> IsReportReward t then Fail
      else if \<not> IsMainChain nd
      then Reject 100 REJECT_INVALID ''mainchain-not-accept-reportreward-tx''
      else case ReadTxDataByTxIndex nd (reporttxid t) of
        (None, reporthashBlock) \<Rightarrow> Fail
      | (Some ptxReport, reporthashBlock) \<Rightarrow>
         (case pReportData ptxReport of
            None \<Rightarrow> Reject 100 REJECT_INVALID ''invalid-report-tx''
          | Some rd \<Rightarrow>
             if \<not> IsReport ptxReport then Reject 100 REJECT_INVALID ''invalid-report-tx''
             else
               (case mapBlockIndex nd reporthashBlock of
                  None \<Rightarrow> Fail
                | Some rpBlockIndex \<Rightarrow>
                   if \<not> Contains (chainActive nd) rpBlockIndex then Fail
                   else if sint (nHeight rpBlockIndex - nHeight pindex) < REPORT_OUTOF_HEIGHT x
                   then Reject 100 REJECT_INVALID ''Still in prove stage.''
                   else if \<not> HasBranchData (pBranchDb nd) (reportedBranchId rd) then Fail
                   else
                     (case mapHeads (GetBranchData (pBranchDb nd) (reportedBranchId rd))
                             (reportedBlockHash rd) of
                        None \<Rightarrow> Fail
                      | Some blockdata \<Rightarrow>
                         (case GetReportTxHashKey x ptxReport of
                            None \<Rightarrow> Crash
                          | Some reportFlagHash \<Rightarrow>
                             if mapReportStatus blockdata reportFlagHash = None
                                \<or> mapReportStatus blockdata reportFlagHash = Some RP_FLAG_PROVED
                             then Fail
                             else reward_payout x t ptxReport blockdata)))))"

section \<open>Cross-chain amounts\<close>

text \<open>
  \<^verbatim>\<open>GetBranchChainTransOut\<close>, \<^verbatim>\<open>GetMortgageMineOut\<close> and \<^verbatim>\<open>GetBranchChainOut\<close>.  Each loop
  over \<^verbatim>\<open>vout\<close> carries \<^verbatim>\<open>nAmount\<close>.  \<^verbatim>\<open>uint256(vch).ToString()\<close> is compared with the
  branch id string of the transaction.
\<close>

fun GetBranchChainTransOut_loop :: "ext \<Rightarrow> string \<Rightarrow> CellTxOut list \<Rightarrow> CellAmount \<Rightarrow> CellAmount" where
  "GetBranchChainTransOut_loop x sendTo [] nAmount = nAmount"
| "GetBranchChainTransOut_loop x sendTo (txout # rest) nAmount =
     GetBranchChainTransOut_loop x sendTo rest
       (case GetOp (scriptPubKey txout) of
          (ok1, opcode1, vch1, pc1) \<Rightarrow>
            if ok1 then
              (if sendTo \<noteq> MAIN then
                 (if opcode1 = OP_TRANS_BRANCH then
                    (case GetOp pc1 of
                       (ok2, opcode2, vch2, pc2) \<Rightarrow>
                         if ok2 \<and> length vch2 = 32 then
                           (if ToString x (uint256_of x vch2) = sendTo
                            then nAmount + nValue txout else nAmount)
                         else nAmount)
                  else nAmount)
               else
                 (if opcode1 = OP_RETURN then
                    (case GetOp pc1 of
                       (ok2, opcode2, vch2, pc2) \<Rightarrow>
                         if opcode2 = OP_TRANS_BRANCH then nAmount + nValue txout else nAmount)
                  else nAmount))
            else nAmount)"

definition GetBranchChainTransOut :: "ext \<Rightarrow> CellTransaction \<Rightarrow> CellAmount" where
  "GetBranchChainTransOut x branchTransStep1Tx =
     (if IsBranchChainTransStep1 branchTransStep1Tx = False then 0
      else GetBranchChainTransOut_loop x (sendToBranchid branchTransStep1Tx)
             (vout branchTransStep1Tx) 0)"

fun GetMortgageMineOut_loop ::
  "ext \<Rightarrow> string \<Rightarrow> bool \<Rightarrow> CellTxOut list \<Rightarrow> CellAmount \<Rightarrow> CellAmount" where
  "GetMortgageMineOut_loop x sendTo bWithBranchOut [] nAmount = nAmount"
| "GetMortgageMineOut_loop x sendTo bWithBranchOut (txout # rest) nAmount =
     GetMortgageMineOut_loop x sendTo bWithBranchOut rest
       (case GetOp (scriptPubKey txout) of
          (ok1, opcode1, vch1, pc1) \<Rightarrow>
            if ok1 = False then nAmount
            else
              let nAmount1 = (if opcode1 = OP_MINE_BRANCH_MORTGAGE then nAmount + nValue txout
                              else nAmount)
              in if bWithBranchOut \<and> opcode1 = OP_TRANS_BRANCH then
                   (case GetOp pc1 of
                      (ok2, opcode2, vch2, pc2) \<Rightarrow>
                        if ok2 \<and> length vch2 = 32 then
                          (if ToString x (uint256_of x vch2) = sendTo
                           then nAmount1 + nValue txout else nAmount1)
                        else nAmount1)
                 else nAmount1)"

definition GetMortgageMineOut :: "ext \<Rightarrow> CellTransaction \<Rightarrow> bool \<Rightarrow> CellAmount" where
  "GetMortgageMineOut x t bWithBranchOut =
     GetMortgageMineOut_loop x (sendToBranchid t) bWithBranchOut (vout t) 0"

definition GetBranchChainOut :: "ext \<Rightarrow> CellTransaction \<Rightarrow> CellAmount" where
  "GetBranchChainOut x t =
     (if IsBranchChainTransStep1 t then GetBranchChainTransOut x t
      else if IsMortgage t then GetMortgageMineOut x t True
      else 0)"

text \<open>
  The same sums in the words of the specification: an output counts for a transfer to
  a branch when its script starts with \<^verbatim>\<open>OP_TRANS_BRANCH\<close> followed by a 32-byte hash that
  names the destination, for a transfer to the main chain when it starts with
  \<^verbatim>\<open>OP_RETURN OP_TRANS_BRANCH\<close>, and for a mortgage also when it starts with
  \<^verbatim>\<open>OP_MINE_BRANCH_MORTGAGE\<close>.
\<close>

fun starts_trans_branch_to :: "ext \<Rightarrow> string \<Rightarrow> CellScript \<Rightarrow> bool" where
  "starts_trans_branch_to x dest (Item opcode1 vch1 # Item opcode2 vch2 # pc) =
     (opcode1 = OP_TRANS_BRANCH \<and> length vch2 = 32 \<and> ToString x (uint256_of x vch2) = dest)"
| "starts_trans_branch_to x dest script = False"

fun starts_return_trans_branch :: "CellScript \<Rightarrow> bool" where
  "starts_return_trans_branch (Item opcode1 vch1 # Item opcode2 vch2 # pc) =
     (opcode1 = OP_RETURN \<and> opcode2 = OP_TRANS_BRANCH)"
| "starts_return_trans_branch script = False"

fun starts_mine_branch_mortgage :: "CellScript \<Rightarrow> bool" where
  "starts_mine_branch_mortgage (Item opcode1 vch1 # pc) = (opcode1 = OP_MINE_BRANCH_MORTGAGE)"
| "starts_mine_branch_mortgage script = False"

definition spec_branch_out :: "ext \<Rightarrow> CellTransaction \<Rightarrow> CellAmount" where
  "spec_branch_out x t =
     (if IsBranchChainTransStep1 t then
        (if sendToBranchid t \<noteq> MAIN
         then sum_list (map nValue
                (filter (\<lambda>txout. starts_trans_branch_to x (sendToBranchid t) (scriptPubKey txout))
                   (vout t)))
         else sum_list (map nValue
                (filter (\<lambda>txout. starts_return_trans_branch (scriptPubKey txout)) (vout t))))
      else if IsMortgage t then
        sum_list (map nValue
          (filter (\<lambda>txout. starts_mine_branch_mortgage (scriptPubKey txout)
                     \<or> starts_trans_branch_to x (sendToBranchid t) (scriptPubKey txout))
             (vout t)))
      else 0)"

section \<open>Reverting a step-2 transaction\<close>

text \<open>
  \<^verbatim>\<open>RevertTransaction\<close>.  \<^verbatim>\<open>pFromTx\<close> may be null.  Writing \<^verbatim>\<open>vout[0]\<close> of an empty
  vector gives \<open>None\<close>.  \<^verbatim>\<open>new CellSpvProof()\<close> is the default-constructed proof and
  \<^verbatim>\<open>vin.resize(1)\<close> a default-constructed input (final sequence number) whose
  \<^verbatim>\<open>prevout\<close> is then set to a null hash and index 0.  The loops that erase from the back
  every element satisfying a test keep the other elements in order: a \<open>filter\<close>.
\<close>

definition empty_proof :: CellSpvProof where
  "empty_proof = \<lparr> blockhash = 0, pmt = \<lparr> nTransactions = 0, vBits = [], vHash = [] \<rparr> \<rparr>"

definition RevertTransaction ::
  "ext \<Rightarrow> CellTransaction \<Rightarrow> CellTransaction option \<Rightarrow> bool \<Rightarrow> CellTransaction option" where
  "RevertTransaction x t pFromTx fDeepRevert =
     (let mtx1 = (if fDeepRevert \<and> IsBranchChainTransStep2 t
                  then Some (t \<lparr> fromTx := [] \<rparr>) else Some t);
          mtx2 = (if fDeepRevert \<and> IsBranchChainTransStep2 t
                     \<and> (case pFromTx of None \<Rightarrow> False | Some f \<Rightarrow> IsMortgage f)
                  then (case mtx1 of
                          None \<Rightarrow> None
                        | Some m \<Rightarrow>
                           (case vout m of
                              [] \<Rightarrow> None
                            | o0 # os \<Rightarrow> Some (m \<lparr> vout := o0 \<lparr> scriptPubKey := [] \<rparr> # os \<rparr>)))
                  else mtx1);
          mtx3 = (if fDeepRevert \<and> IsBranchChainTransStep2 t \<and> fromBranchId t \<noteq> MAIN
                  then map_option (\<lambda>m. m \<lparr> pPMT := Some empty_proof \<rparr>) mtx2
                  else mtx2)
      in if IsBranchChainTransStep2 t \<and> fromBranchId t \<noteq> MAIN
         then map_option
                (\<lambda>m. m \<lparr> vin := [\<lparr> prevout = \<lparr> hash = 0, n = 0 \<rparr>, scriptSig = [],
                                   nSequence = - 1 \<rparr>],
                         vout := filter (\<lambda>txout. \<not> IsCoinBranchTranScript x (scriptPubKey txout))
                                   (vout m) \<rparr>)
                mtx3
         else if IsSmartContract t
         then map_option
                (\<lambda>m. m \<lparr> vin := filter (\<lambda>txin. \<not> IsContract x (scriptSig txin)) (vin m),
                         vout := filter (\<lambda>txout. \<not> IsContractChange x (scriptPubKey txout))
                                   (vout m) \<rparr>)
                mtx3
         else mtx3)"

section \<open>Validation of a step-2 transaction\<close>

text \<open>
  \<^verbatim>\<open>CheckBranchTransaction\<close>, in the order of the source: the checks on the two
  transactions (\<open>branch_tx_mortgage\<close>, \<open>branch_tx_local\<close>), the two early exits, and the
  question to the source chain (\<open>branch_tx_rpc\<close>).  \<^verbatim>\<open>maturity\<close> is a \<^verbatim>\<open>uint32_t\<close>, so
  \<^verbatim>\<open>confirmations.get_int() < maturity + 1\<close> compares two unsigned 32-bit values.
\<close>

definition branch_tx_mortgage :: "ext \<Rightarrow> CellTransaction \<Rightarrow> CellTransaction \<Rightarrow> outcome" where
  "branch_tx_mortgage x txBranchChainStep2 txTrans1 =
     (if IsMortgage txTrans1 then
        (case vout txTrans1 of
           [] \<Rightarrow> Crash
         | out1 # _ \<Rightarrow>
            (case GetMortgageMineData x (scriptPubKey out1) True of
               None \<Rightarrow> Reject 100 REJECT_INVALID ''invalid mortgage mine script''
             | Some (branchhash1, keyid1, height1) \<Rightarrow>
                if length (vout txBranchChainStep2) \<noteq> 1 then Fail
                else
                  (case GetMortgageCoinData x (scriptPubKey (vout txBranchChainStep2 ! 0)) True of
                     None \<Rightarrow> Fail
                   | Some (fromtxid2, keyid2, height2) \<Rightarrow>
                      if keyid1 \<noteq> keyid2 \<or> height1 \<noteq> height2
                      then Reject 100 REJECT_INVALID ''invalid mortgage coin script''
                      else Accept)))
      else Accept)"

definition nOrginalOut :: "ext \<Rightarrow> CellTransaction \<Rightarrow> CellAmount" where
  "nOrginalOut x txBranchChainStep2 =
     (if fromBranchId txBranchChainStep2 \<noteq> MAIN
      then sum_list (map nValue
             (filter (\<lambda>txout. \<not> IsCoinBranchTranScript x (scriptPubKey txout))
                (vout txBranchChainStep2)))
      else GetValueOut txBranchChainStep2)"

definition branch_tx_local :: "ext \<Rightarrow> CellTransaction \<Rightarrow> CellTransaction \<Rightarrow> outcome" where
  "branch_tx_local x txBranchChainStep2 txTrans1 =
     (case DecodeHexTx x (sendToTxHexData txTrans1) of
        None \<Rightarrow> Fail
      | Some mtxTrans2 \<Rightarrow>
         (case RevertTransaction x txBranchChainStep2 (Some txTrans1) True of
            None \<Rightarrow> Crash
          | Some mtxTrans2my \<Rightarrow>
             if GetHash x mtxTrans2 \<noteq> GetHash x mtxTrans2my
             then Reject 100 REJECT_INVALID (''%s transaction hash error'' @ endl)
             else if GetBranchChainOut x txTrans1 \<noteq> inAmount txBranchChainStep2
                     \<or> MoneyRange x (inAmount txBranchChainStep2) = False
             then Reject 100 REJECT_INVALID ('' %s Invalid inAmount!'' @ endl)
             else if sint (nOrginalOut x txBranchChainStep2) > sint (inAmount txBranchChainStep2)
             then Reject 100 REJECT_INVALID
                    (''%s GetValueOut larger than inAmount'' @ endl)
             else Accept))"

definition branch_tx_rpc :: "ext \<Rightarrow> CellRPCConfig \<Rightarrow> string \<Rightarrow> outcome" where
  "branch_tx_rpc x branchrpccfg fromTxHash =
     (let reply = CallRPC x branchrpccfg ''getbranchchaintransaction'' [VSTR fromTxHash];
          result = find_value reply ''result'';
          errorVal = find_value reply ''error''
      in if \<not> isNull errorVal then Fail
         else if isNull result then Fail
         else
           let txhex = find_value result ''hex'';
               confirmations = find_value result ''confirmations''
           in (case get_str txhex of
                 None \<Rightarrow> Reject 100 REJECT_INVALID
                   ('' %s RPC call getbranchchaintransaction tx hex invalid.'' @ endl)
               | Some hex \<Rightarrow>
                  (case DecodeHexTx x hex of
                     None \<Rightarrow> Reject 100 REJECT_INVALID
                       ('' %s RPC call getbranchchaintransaction DecodeHexTx tx hex fail.''
                          @ endl)
                   | Some mtxTrans1 \<Rightarrow>
                      if ToString x (GetHash x mtxTrans1) \<noteq> fromTxHash
                      then Reject 100 REJECT_INVALID
                        ('' %s return transaction is not the one that i wanted.'' @ endl)
                      else if \<not> isNum confirmations then Fail
                      else
                        (case get_int confirmations of
                           None \<Rightarrow> Crash
                         | Some c \<Rightarrow>
                            if c < BRANCH_CHAIN_MATURITY x + 1 then Fail else Accept))))"

definition CheckBranchTransaction ::
  "ext \<Rightarrow> node \<Rightarrow> CellTransaction \<Rightarrow> bool \<Rightarrow> CellTransaction option \<Rightarrow> outcome" where
  "CheckBranchTransaction x nd txBranchChainStep2 fVerifingDB pFromTx =
     (if IsBranchChainTransStep2 txBranchChainStep2 = False
      then Reject 100 REJECT_INVALID ''is not a IsBranchChainTransStep2''
      else case pFromTx of
        None \<Rightarrow> Crash
      | Some txTrans1 \<Rightarrow>
         if fromBranchId txBranchChainStep2 = GetBranchId nd
         then Reject 100 REJECT_INVALID ''%s ctFromChain eq ctToChain''
         else if branch_tx_mortgage x txBranchChainStep2 txTrans1 \<noteq> Accept
         then branch_tx_mortgage x txBranchChainStep2 txTrans1
         else if branch_tx_local x txBranchChainStep2 txTrans1 \<noteq> Accept
         then branch_tx_local x txBranchChainStep2 txTrans1
         else if fVerifingDB \<and> uncheckbranchtxinverifydb nd then Accept
         else
           (case GetRpcConfig nd (fromBranchId txBranchChainStep2) of
              None \<Rightarrow>
                if IsMainChain nd \<and> unchecknoconfigbranch nd then Accept
                else Reject 1 REJECT_INVALID
                       ('' %s can not found branch rpc config for %s'' @ endl)
            | Some branchrpccfg \<Rightarrow>
                if IsValid branchrpccfg = False then
                  (if IsMainChain nd \<and> unchecknoconfigbranch nd then Accept
                   else Reject 1 REJECT_INVALID
                          ('' %s can not found branch rpc config for %s'' @ endl))
                else branch_tx_rpc x branchrpccfg (ToString x (GetHash x txTrans1))))"

section \<open>Locking and unlocking a mine coin\<close>

text \<open>
  Modelled from the spec: the constant \<^verbatim>\<open>REPORT_LOCK_COIN_HEIGHT\<close> is declared outside the
  sources; its value 60 is the one the specification and the error message of both
  functions give, and it is compared with the signed \<^verbatim>\<open>int32_t confirmations\<close>.
\<close>

definition REPORT_LOCK_COIN_HEIGHT :: int where
  "REPORT_LOCK_COIN_HEIGHT = 60"

text \<open>
  \<^verbatim>\<open>CheckLockMortgageMineCoinTx\<close> and \<^verbatim>\<open>CheckUnlockMortgageMineCoinTx\<close>.  The first reads
  the configuration of \<^verbatim>\<open>CellBaseChainParams::MAIN\<close>, the second that of the literal
  \<^verbatim>\<open>main\<close>.
\<close>

definition CheckLockMortgageMineCoinTx :: "ext \<Rightarrow> node \<Rightarrow> CellTransaction \<Rightarrow> outcome" where
  "CheckLockMortgageMineCoinTx x nd t =
     (if \<not> IsLockMortgageMineCoin t then Fail
      else if (case GetRpcConfig nd MAIN of None \<Rightarrow> True | Some cfg \<Rightarrow> IsValid cfg = False)
      then Reject 1 REJECT_INVALID
             ('' %s can not found branch rpc config for %s'' @ endl)
      else
        let reply = CallRPC x (the (GetRpcConfig nd MAIN)) ''getreporttxdata''
                      [VSTR (ToString x (reporttxid t))];
            result = find_value reply ''result'';
            errorVal = find_value reply ''error''
        in if \<not> isNull errorVal then Fail
           else if isNull result then Fail
           else
             let uvtxhex = find_value result ''txhex'';
                 uvconfirmations = find_value result ''confirmations'';
                 uvprevouthash = find_value result ''preminecoinvouthash''
             in if isNull uvtxhex \<or> \<not> isStr uvtxhex \<or> isNull uvconfirmations
                   \<or> \<not> isNum uvconfirmations \<or> isNull uvprevouthash
                then Fail
                else
                  (case get_int uvconfirmations of
                     None \<Rightarrow> Crash
                   | Some confirmations \<Rightarrow>
                      if sint confirmations < REPORT_LOCK_COIN_HEIGHT then Fail
                      else
                        (case DecodeHexTx x (the (get_str uvtxhex)) of
                           None \<Rightarrow> Fail
                         | Some mtxReport \<Rightarrow>
                            (case pReportData mtxReport of
                               None \<Rightarrow> Fail
                             | Some rd \<Rightarrow>
                                if \<not> IsReport mtxReport then Fail
                                else if reportedBranchId rd \<noteq> GetBranchHash nd
                                then Reject 100 REJECT_INVALID ''Report-branchid-not-match''
                                else
                                  (case SafeParseHashV x uvprevouthash of
                                     None \<Rightarrow> Fail
                                   | Some minecoinfromhash \<Rightarrow>
                                      if coinpreouthash t \<noteq> minecoinfromhash
                                      then Reject 0 REJECT_INVALID ''lock-mine-coin-error!''
                                      else Accept)))))"

definition CheckUnlockMortgageMineCoinTx :: "ext \<Rightarrow> node \<Rightarrow> CellTransaction \<Rightarrow> outcome" where
  "CheckUnlockMortgageMineCoinTx x nd t =
     (if \<not> IsUnLockMortgageMineCoin t then Fail
      else if (case GetRpcConfig nd ''main'' of None \<Rightarrow> True | Some cfg \<Rightarrow> IsValid cfg = False)
      then (if IsMainChain nd \<and> unchecknoconfigbranch nd then Accept
            else Reject 1 REJECT_INVALID
                   ('' %s can not found branch rpc config for %s'' @ endl))
      else
        let reply = CallRPC x (the (GetRpcConfig nd ''main'')) ''getprovetxdata''
                      [VSTR (ToString x (provetxid t))];
            result = find_value reply ''result'';
            errorVal = find_value reply ''error''
        in if \<not> isNull errorVal
           then Reject 0 REJECT_INVALID ('' %s RPC call fail: %s'' @ endl)
           else if isNull result
           then Reject 0 REJECT_INVALID
                  ''CheckUnlockMortgageMineCoinTx RPC call fail: result null.''
           else
             let uvtxhex = find_value result ''txhex'';
                 uvconfirmations = find_value result ''confirmations'';
                 uvprevouthash = find_value result ''preminecoinvouthash''
             in if isNull uvtxhex \<or> \<not> isStr uvtxhex \<or> isNull uvconfirmations
                   \<or> \<not> isNum uvconfirmations \<or> isNull uvprevouthash
                then Reject 0 REJECT_INVALID
                       ''CheckUnlockMortgageMineCoinTx RPC return invalid value''
                else
                  (case get_int uvconfirmations of
                     None \<Rightarrow> Crash
                   | Some confirmations \<Rightarrow>
                      if sint confirmations < REPORT_LOCK_COIN_HEIGHT
                      then Reject 0 REJECT_INVALID
                             (''%s: Need 60 blocks to be mature, now is %d'' @ endl)
                      else
                        (case DecodeHexTx x (the (get_str uvtxhex)) of
                           None \<Rightarrow> Reject 0 REJECT_INVALID
                                    ''CheckUnlockMortgageMineCoinTx decode hex tx fail''
                         | Some mtxProve \<Rightarrow>
                            (case pProveData mtxProve of
                               None \<Rightarrow> Fail
                             | Some pd \<Rightarrow>
                                if branchId pd \<noteq> GetBranchHash nd
                                then Reject 100 REJECT_INVALID ''prove-branchid-not-match''
                                else
                                  (case SafeParseHashV x uvprevouthash of
                                     None \<Rightarrow> Reject 0 REJECT_INVALID
                                       ''CheckUnlockMortgageMineCoinTx parse minecoinfromhash fail''
                                   | Some minecoinfromhash \<Rightarrow>
                                      if coinpreouthash t \<noteq> minecoinfromhash
                                      then Reject 0 REJECT_INVALID ''lock-mine-coin-error!''
                                      else Accept)))))"

section \<open>Signing a block\<close>

text \<open>
  \<^verbatim>\<open>SignBlock\<close> of the mining RPC file.  The script solver, the key store, the key
  operations and the block hash without signature data are parameters.  A key store is
  the partial map from key ids to private keys that \<^verbatim>\<open>GetKey\<close> reads; key ids and
  public keys are byte vectors.  \<^verbatim>\<open>vchBlockSig << vch\<close> appends a push of \<^verbatim>\<open>vch\<close> to the
  signature script.  The result is the returned flag with the block as the function
  leaves it; \<open>None\<close> is the failed \<^verbatim>\<open>assert\<close> or the read of \<^verbatim>\<open>vout[0]\<close> or
  \<^verbatim>\<open>vSolutions[0]\<close> in an empty vector.
\<close>

datatype txnouttype = TX_NONSTANDARD | TX_PUBKEY | TX_PUBKEYHASH | TX_MORTGAGE_COIN | TX_OTHER nat


record MCBlock = CellBlockHeader +
  vtx :: "CellTransaction list"





text \<open>
  The reverted step-2 transaction in the words of the specification: the \<^verbatim>\<open>fromTx\<close> field
  is cleared, the script of the first output is cleared when the source transaction is
  a mortgage, and when the source chain is not the main chain the SPV proof is replaced
  by the empty proof, the inputs by the single null input and the branch-recharge
  outputs are removed.
\<close>

fun clear_first_script :: "CellTxOut list \<Rightarrow> CellTxOut list" where
  "clear_first_script [] = []"
| "clear_first_script (txout # rest) = txout \<lparr> scriptPubKey := [] \<rparr> # rest"

definition null_input :: CellTxIn where
  "null_input = \<lparr> prevout = \<lparr> hash = 0, n = 0 \<rparr>, scriptSig = [], nSequence = - 1 \<rparr>"

definition spec_revert :: "ext \<Rightarrow> CellTransaction \<Rightarrow> CellTransaction \<Rightarrow> CellTransaction" where
  "spec_revert x step2 txTrans1 =
     (let cleared = step2 \<lparr> fromTx := [],
            vout := (if IsMortgage txTrans1 then clear_first_script (vout step2)
                     else vout step2) \<rparr>
      in if fromBranchId step2 \<noteq> MAIN
         then cleared \<lparr> pPMT := Some empty_proof, vin := [null_input],
                vout := filter (\<lambda>txout. \<not> IsCoinBranchTranScript x (scriptPubKey txout))
                          (vout cleared) \<rparr>
         else cleared)"

section \<open>Example data\<close>

text \<open>
  Concrete inputs on which the definitions are evaluated.  \<open>x0\<close> instantiates the
  collaborators with small functions: the transaction hash counts fields, the hash
  writer counts the items written to it.
\<close>

definition tx0 :: CellTransaction where
  "tx0 = \<lparr> nVersion = NORMAL, vin = [], vout = [], sendToBranchid = [], sendToTxHexData = [],
     fromBranchId = [], fromTx = [], inAmount = 0, pPMT = None, pBranchBlockData = None,
     pReportData = None, pProveData = None, reporttxid = 0, provetxid = 0, coinpreouthash = 0,
     contractAddr = [], contractOut = 0 \<rparr>"

definition x0 :: ext where
  "x0 = \<lparr> GetHash = (\<lambda>t. of_nat (length (fromTx t) + 10 * length (vin t) + 100 * length (vout t))
                      + 1000 * ucast (inAmount t)),
     DecodeHexTx = (\<lambda>s. None), DecodeTx = (\<lambda>s. None), DecodeVtx = (\<lambda>s. None),
     HashWriter = (\<lambda>ss. of_nat (length ss)), ToString = (\<lambda>h. []),
     uint256_of = (\<lambda>v. of_nat (length v)), SafeParseHashV = (\<lambda>v. None),
     ExtractMatches =
       (\<lambda>p. (vHash p ! 0, tl (vHash p), replicate (length (vHash p) - 1) (nTransactions p))),
     VecTxMerkleRoot = (\<lambda>v. (of_nat (length v), False)),
     GetTxHashWithPrevData = (\<lambda>h d. h), GetTxHashWithData = (\<lambda>h d. h),
     ExecuteContract = (\<lambda>t i c bt h d. None),
     IsCoinBranchTranScript = (\<lambda>s. False), GetScriptInt64 = (\<lambda>c v. None),
     GetScriptForDestination = (\<lambda>a. []), IsContract = (\<lambda>s. False),
     IsContractChange = (\<lambda>s. False), GetContractAddr = (\<lambda>s. None),
     ScriptCheck = (\<lambda>s a t i. True), GetBlockHash = (\<lambda>h. hashMerkleRoot h),
     CallRPC = (\<lambda>c m p. VNULL), MAX_MONEY = 1000000,
     BRANCH_CHAIN_MATURITY = 6, REPORT_OUTOF_HEIGHT = 10 \<rparr>"

definition pmt1 :: CellPartialMerkleTree where
  "pmt1 = \<lparr> nTransactions = 3, vBits = [], vHash = [5, 7] \<rparr>"

definition pmt2 :: CellPartialMerkleTree where
  "pmt2 = \<lparr> nTransactions = 3, vBits = [], vHash = [5, 7, 8] \<rparr>"

definition report_cd :: CellTransaction where
  "report_cd = tx0 \<lparr> nVersion := REPORT_CHEAT,
     pReportData := Some \<lparr> reporttype = REPORT_CONTRACT_DATA, reportedBranchId = 1,
       reportedBlockHash = 2, reportedTxHash = 3 \<rparr> \<rparr>"

definition prove_cd :: CellTransaction where
  "prove_cd = tx0 \<lparr> nVersion := PROVE,
     pProveData := Some \<lparr> provetype = REPORT_CONTRACT_DATA, branchId = 1, blockHash = 2,
       txHash = 3, vectProveData = [], vtxData = [], vecBlockTxProve = [],
       contractData = None \<rparr> \<rparr>"

text \<open>
  A branch block of three transactions: the coinbase \<open>cb7\<close> paying 3, the stake
  transaction and \<open>pay7\<close>, which spends the 10 coins of output 0 of \<open>src7\<close> and pays 7.
  \<open>item7\<close> proves the input of \<open>pay7\<close>; \<open>db7\<close> knows branch 1 with the proved block 2
  and the block 9 that contains \<open>src7\<close>.  \<open>cb7bad\<close> pays 4 instead.
\<close>

definition plain_script :: CellScript where
  "plain_script = [Item OP_DUP [], Item OP_HASH160 [], Item (OP_PUSH 2) [1, 2]]"

definition src7 :: CellTransaction where
  "src7 = tx0 \<lparr> vout := [\<lparr> nValue = 10, scriptPubKey = plain_script \<rparr>] \<rparr>"

definition pay7 :: CellTransaction where
  "pay7 = tx0 \<lparr> vin := [\<lparr> prevout = \<lparr> hash = 100, n = 0 \<rparr>, scriptSig = [], nSequence = 0 \<rparr>],
                 vout := [\<lparr> nValue = 7, scriptPubKey = plain_script \<rparr>] \<rparr>"

definition cb7 :: CellTransaction where
  "cb7 = tx0 \<lparr> vin := [\<lparr> prevout = \<lparr> hash = 0, n = - 1 \<rparr>, scriptSig = [], nSequence = 0 \<rparr>],
                vout := [\<lparr> nValue = 3, scriptPubKey = plain_script \<rparr>] \<rparr>"

definition cb7bad :: CellTransaction where
  "cb7bad = cb7 \<lparr> vout := [\<lparr> nValue = 4, scriptPubKey = plain_script \<rparr>] \<rparr>"

definition stake7 :: CellTransaction where
  "stake7 = tx0 \<lparr> vout := [\<lparr> nValue = 100, scriptPubKey = plain_script \<rparr>] \<rparr>"

definition item7 :: ProveDataItem where
  "item7 = \<lparr> ProveDataItem.blockHash = 9, tx = [7],
     pCSP = \<lparr> blockhash = 9, pmt = \<lparr> nTransactions = 1, vBits = [], vHash = [55, 100] \<rparr> \<rparr> \<rparr>"

definition x7 :: ext where
  "x7 = x0 \<lparr> DecodeTx := (\<lambda>v. if v = [7] then Some src7 else None),
             DecodeVtx := (\<lambda>v. if v = [2] then Some [cb7, stake7, pay7]
                                else if v = [3] then Some [cb7bad, stake7, pay7] else None) \<rparr>"

definition header0 :: CellBlockHeader where
  "header0 = \<lparr> hashMerkleRoot = 0, hashMerkleRootWithPrevData = 0, hashMerkleRootWithData = 0,
     nTime = 0, prevoutStake = \<lparr> hash = 0, n = 0 \<rparr>, vchBlockSig = [] \<rparr>"

definition block2 :: BranchBlockData where
  "block2 = \<lparr> header = header0 \<lparr> hashMerkleRoot := 3 \<rparr>, nHeight = 20, mBlockHash = 2,
     pStakeTx = Some stake7, mapReportStatus = Map.empty \<rparr>"

definition block9 :: BranchBlockData where
  "block9 = \<lparr> header = header0 \<lparr> hashMerkleRoot := 55 \<rparr>, nHeight = 19, mBlockHash = 9,
     pStakeTx = None, mapReportStatus = Map.empty \<rparr>"

definition db7 :: BranchDb where
  "db7 = \<lparr> mReortTxFlag = Map.empty,
     mapBranchsData = [1 \<mapsto> \<lparr> mapHeads = [2 \<mapsto> block2, 9 \<mapsto> block9] \<rparr>] \<rparr>"

definition prove7 :: CellTransaction where
  "prove7 = tx0 \<lparr> nVersion := PROVE,
     pProveData := Some \<lparr> provetype = REPORT_MERKLETREE, branchId = 1, blockHash = 2,
       txHash = 0, vectProveData = [], vtxData = [2], vecBlockTxProve = [[item7]],
       contractData = None \<rparr> \<rparr>"

definition prove7bad :: CellTransaction where
  "prove7bad = tx0 \<lparr> nVersion := PROVE,
     pProveData := Some \<lparr> provetype = REPORT_MERKLETREE, branchId = 1, blockHash = 2,
       txHash = 0, vectProveData = [], vtxData = [3], vecBlockTxProve = [[item7]],
       contractData = None \<rparr> \<rparr>"

definition report7 :: CellTransaction where
  "report7 = tx0 \<lparr> nVersion := REPORT_CHEAT,
     pReportData := Some \<lparr> reporttype = REPORT_MERKLETREE, reportedBranchId = 1,
       reportedBlockHash = 2, reportedTxHash = 0 \<rparr> \<rparr>"

definition nd0 :: node where
  "nd0 = \<lparr> GetBranchId = ''main'', IsMainChain = True, GetBranchHash = 0,
     uncheckbranchtxinverifydb = True, unchecknoconfigbranch = False,
     mapRpcConfig = Map.empty, pBranchDb = db7, IsTxRecvRepeat = (\<lambda>t. False),
     ReadTxDataByTxIndex = (\<lambda>h. (None, 0)), mapBlockIndex = Map.empty, chainActive = [] \<rparr>"

definition cache7 :: BranchCache where
  "cache7 = \<lparr> HasInCache = (\<lambda>t. False), mReortTxFlagCache = [4 \<mapsto> RP_FLAG_REPORTED] \<rparr>"

text \<open>
  A main chain of 21 blocks (heights 0 to 20).  The report \<open>report1\<close> of block 2 of
  branch 1 is confirmed in the block at height 10; its flag is REPORTED.  The stake
  output of the reported block is a mortgage coin created by transaction 32, and
  \<open>reward1\<close> spends output 0 of that transaction and pays half of the stake to the
  reporter.
\<close>

definition coin_script :: CellScript where
  "coin_script = [Item OP_MINE_BRANCH_COIN [], Item (OP_PUSH 32) (replicate 32 0),
     Item (OP_PUSH 1) [5], Item OP_2DROP [], Item OP_DUP [], Item OP_HASH160 [],
     Item (OP_PUSH 2) [1, 2]]"

definition stake1 :: CellTransaction where
  "stake1 = tx0 \<lparr> vout := [\<lparr> nValue = 100, scriptPubKey = coin_script \<rparr>] \<rparr>"

definition report1 :: CellTransaction where
  "report1 = tx0 \<lparr> nVersion := REPORT_CHEAT,
     vout := [\<lparr> nValue = 1, scriptPubKey = plain_script \<rparr>],
     pReportData := Some \<lparr> reporttype = REPORT_TX, reportedBranchId = 1,
       reportedBlockHash = 2, reportedTxHash = 3 \<rparr> \<rparr>"

definition reward1 :: CellTransaction where
  "reward1 = tx0 \<lparr> nVersion := REPORT_REWARD, reporttxid := 77,
     vin := [\<lparr> prevout = \<lparr> hash = 32, n = 0 \<rparr>, scriptSig = [], nSequence = 0 \<rparr>],
     vout := [\<lparr> nValue = 50, scriptPubKey = plain_script \<rparr>] \<rparr>"

definition index_at :: "nat \<Rightarrow> CellBlockIndex" where
  "index_at h = \<lparr> nHeight = of_nat h, phashBlock = of_nat h \<rparr>"

definition nd1 :: node where
  "nd1 = nd0 \<lparr>
     pBranchDb := \<lparr> mReortTxFlag = Map.empty,
       mapBranchsData = [1 \<mapsto> \<lparr> mapHeads = [2 \<mapsto> block2 \<lparr> pStakeTx := Some stake1,
         mapReportStatus := [4 \<mapsto> RP_FLAG_REPORTED] \<rparr>] \<rparr>] \<rparr>,
     ReadTxDataByTxIndex := (\<lambda>h. if h = 77 then (Some report1, 10) else (None, 0)),
     mapBlockIndex := [10 \<mapsto> index_at 10],
     chainActive := map index_at [0..<21] \<rparr>"

text \<open>
  A transfer of 5 coins from branch \<open>b1\<close> to the main chain.  \<open>step1a\<close> is the step-1
  transaction on the branch; the transaction it embeds as \<open>aa\<close> decodes to \<open>decodedA\<close>;
  \<open>step2a\<close> is the step-2 transaction on the main chain.  In \<open>xa\<close> the source chain
  answers \<^verbatim>\<open>getbranchchaintransaction\<close> with \<open>step1a\<close> (encoded as \<open>bb\<close>) and 7
  confirmations, in \<open>xa6\<close> with 6; the maturity is 6.  \<open>step1b\<close> sends 4 coins only;
  \<open>step2wide\<close> has a second output.
\<close>

definition to_main_script :: CellScript where
  "to_main_script = [Item OP_RETURN [], Item OP_TRANS_BRANCH []]"

definition step1a :: CellTransaction where
  "step1a = tx0 \<lparr> nVersion := TRANS_BRANCH_STEP1, sendToBranchid := ''main'',
     sendToTxHexData := ''aa'', vout := [\<lparr> nValue = 5, scriptPubKey = to_main_script \<rparr>] \<rparr>"

definition step1b :: CellTransaction where
  "step1b = step1a \<lparr> vout := [\<lparr> nValue = 4, scriptPubKey = to_main_script \<rparr>] \<rparr>"

definition decodedA :: CellTransaction where
  "decodedA = tx0 \<lparr> nVersion := TRANS_BRANCH_STEP2, fromBranchId := ''b1'', inAmount := 5,
     vin := [null_input], vout := [\<lparr> nValue = 5, scriptPubKey = plain_script \<rparr>],
     pPMT := Some empty_proof \<rparr>"

definition step2a :: CellTransaction where
  "step2a = decodedA \<lparr> fromTx := [1, 2],
     vin := [\<lparr> prevout = \<lparr> hash = 9, n = 1 \<rparr>, scriptSig = plain_script, nSequence = 0 \<rparr>],
     pPMT := Some \<lparr> blockhash = 9, pmt = pmt1 \<rparr> \<rparr>"

definition step2wide :: CellTransaction where
  "step2wide = step2a \<lparr> vout := [\<lparr> nValue = 3, scriptPubKey = plain_script \<rparr>,
                                  \<lparr> nValue = 2, scriptPubKey = plain_script \<rparr>] \<rparr>"

definition reply_with :: "int \<Rightarrow> UniValue" where
  "reply_with confirmations =
     VOBJ [(''result'', VOBJ [(''hex'', VSTR ''bb''), (''confirmations'', VNUM confirmations)]),
           (''error'', VNULL), (''id'', VNUM 1)]"

definition xa :: ext where
  "xa = x0 \<lparr> DecodeHexTx := (\<lambda>s. if s = ''aa'' then Some decodedA
                                 else if s = ''bb'' then Some step1a else None),
             ToString := (\<lambda>h. if h = 100 then ''64'' else ''00''),
             CallRPC := (\<lambda>cfg method params.
                if method = ''getbranchchaintransaction'' \<and> params = [VSTR ''64'']
                then reply_with 7 else VNULL) \<rparr>"

definition xa6 :: ext where
  "xa6 = xa \<lparr> CallRPC := (\<lambda>cfg method params.
                if method = ''getbranchchaintransaction'' \<and> params = [VSTR ''64'']
                then reply_with 6 else VNULL) \<rparr>"

definition cfg1 :: CellRPCConfig where
  "cfg1 = \<lparr> strIp = ''127.0.0.1'', iPort = 8201, strUser = ''u'', strPassword = ''p'',
     strWallet = [] \<rparr>"

definition nd_rpc :: node where
  "nd_rpc = nd0 \<lparr> mapRpcConfig := [''b1'' \<mapsto> cfg1] \<rparr>"

definition nd_bypass :: node where
  "nd_bypass = nd0 \<lparr> unchecknoconfigbranch := True \<rparr>"

definition nd_flag :: node where
  "nd_flag = nd_rpc \<lparr> unchecknoconfigbranch := True \<rparr>"

definition xaneg :: ext where
  "xaneg = xa \<lparr> CallRPC := (\<lambda>cfg method params.
                if method = ''getbranchchaintransaction'' \<and> params = [VSTR ''64'']
                then reply_with (- 1) else VNULL) \<rparr>"

text \<open>
  A branch node (branch hash 1) that asks the main chain through \<open>cfg1\<close>.  In
  \<open>xl c\<close> the main chain answers \<^verbatim>\<open>getreporttxdata\<close> with the report \<open>report1\<close> and
  \<^verbatim>\<open>getprovetxdata\<close> with the prove \<open>prove7\<close>, both against branch 1, with \<open>c\<close>
  confirmations and the coin hash that parses to 12.
\<close>

definition coin_reply :: "string \<Rightarrow> int \<Rightarrow> UniValue" where
  "coin_reply hex confirmations =
     VOBJ [(''result'', VOBJ [(''txhex'', VSTR hex), (''confirmations'', VNUM confirmations),
                              (''preminecoinvouthash'', VSTR ''0c'')]),
           (''error'', VNULL), (''id'', VNUM 1)]"

definition xl :: "int \<Rightarrow> ext" where
  "xl c = x0 \<lparr> DecodeHexTx := (\<lambda>s. if s = ''rr'' then Some report1
                                  else if s = ''pp'' then Some prove7 else None),
              SafeParseHashV := (\<lambda>v. if v = VSTR ''0c'' then Some 12 else None),
              CallRPC := (\<lambda>cfg method params.
                 if method = ''getreporttxdata'' then coin_reply ''rr'' c
                 else if method = ''getprovetxdata'' then coin_reply ''pp'' c
                 else VNULL) \<rparr>"

definition nd_branch :: node where
  "nd_branch = nd0 \<lparr> GetBranchId := ''b1'', IsMainChain := False, GetBranchHash := 1,
     mapRpcConfig := [''main'' \<mapsto> cfg1] \<rparr>"

definition lock1 :: CellTransaction where
  "lock1 = tx0 \<lparr> nVersion := LOCK_MORTGAGE_MINE_COIN, reporttxid := 77, coinpreouthash := 12 \<rparr>"

definition unlock1 :: CellTransaction where
  "unlock1 = tx0 \<lparr> nVersion := UNLOCK_MORTGAGE_MINE_COIN, provetxid := 78,
     coinpreouthash := 12 \<rparr>"







section \<open>Properties of the SPV check\<close>

text \<open>
  C10.  \<^verbatim>\<open>CheckSpvProof\<close> returns a non-negative index only if the root extracted
  from the tree equals the given Merkle root, the queried hash is among the matched
  hashes, and exactly one index was matched (the index returned); a tree that matches
  two or more transactions gives -1 whatever the queried hash is.
\<close>

theorem CheckSpvProof_single_match:
  "ExtractMatches x tree = (root, vMatch, vIndex) \<Longrightarrow>
     (\<forall>r. CheckSpvProof x merkleRoot tree q = Some r \<and> 0 \<le> r \<longrightarrow>
        root = merkleRoot \<and> q \<in> set vMatch \<and> length vIndex = 1 \<and> r = sint (hd vIndex))
     \<and> (2 \<le> length vIndex \<longrightarrow> CheckSpvProof x merkleRoot tree q = Some (- 1))"
  by (cases vIndex) (auto simp: CheckSpvProof_def split: if_splits)

lemma ExtractMatches_pmt1: "ExtractMatches x0 pmt1 = (5, [7], [3])"
  by (simp add: x0_def pmt1_def)

lemma ExtractMatches_pmt2: "ExtractMatches x0 pmt2 = (5, [7, 8], [3, 3])"
  by (simp add: x0_def pmt2_def numeral_3_eq_3)

theorem CheckSpvProof_single_match_witness:
  "ExtractMatches x0 pmt1 = (5, [7], [3]) \<and> CheckSpvProof x0 5 pmt1 7 = Some 3
   \<and> ExtractMatches x0 pmt2 = (5, [7, 8], [3, 3]) \<and> CheckSpvProof x0 5 pmt2 7 = Some (- 1)"
  using CheckSpvProof_single_match [OF ExtractMatches_pmt1, of 5 7]
    CheckSpvProof_single_match [OF ExtractMatches_pmt2, of 5 7]
  by (simp add: ExtractMatches_pmt1 ExtractMatches_pmt2 CheckSpvProof_def)

section \<open>Properties of the flag keys\<close>

text \<open>
  For the report type CONTRACT_DATA the two keys are not computed from the same data:
  \<^verbatim>\<open>GetReportTxHashKey\<close> hashes the type and the identity, \<^verbatim>\<open>GetProveTxHashKey\<close> the type
  alone.
\<close>

lemma contract_data_key_streams:
  "GetReportTxHashKey x report_cd
     = Some (HashWriter x [HW_type REPORT_CONTRACT_DATA, HW_hash 1, HW_hash 2, HW_hash 3])
   \<and> GetProveTxHashKey x prove_cd = Some (HashWriter x [HW_type REPORT_CONTRACT_DATA])"
  by (simp add: GetReportTxHashKey_def GetProveTxHashKey_def report_cd_def prove_cd_def
      tx0_def IsReport_def)

text \<open>
  A prove transaction that \<^verbatim>\<open>CheckProveTx\<close> accepts has one of the types TX, COINBASE and
  MERKLETREE, the three types that \<^verbatim>\<open>GetProveTxHashKey\<close> lists; a prove of type
  CONTRACT_DATA is rejected.
\<close>

lemma CheckProveTx_prove_types:
  "IsProve p \<Longrightarrow> pProveData p = Some pd \<Longrightarrow> CheckProveTx x db p = Accept \<Longrightarrow>
     provetype pd = REPORT_TX \<or> provetype pd = REPORT_COINBASE
     \<or> provetype pd = REPORT_MERKLETREE"
  by (auto simp: CheckProveTx_def split: if_splits)

lemma CheckProveTx_contract_data:
  "CheckProveTx x db prove_cd = Reject 0 REJECT_INVALID ''Invalid report type''"
  by (simp add: CheckProveTx_def prove_cd_def tx0_def IsProve_def)

text \<open>
  C5, as the claim states it, fails for the report type CONTRACT_DATA: with the hash
  writer of \<open>x0\<close> the keys of a report and a prove of this type and of the same identity
  (1, 2, 3) differ.
\<close>

theorem contract_data_keys_differ:
  "IsReport report_cd
   \<and> pReportData report_cd
       = Some \<lparr> reporttype = REPORT_CONTRACT_DATA, reportedBranchId = 1,
                 reportedBlockHash = 2, reportedTxHash = 3 \<rparr>
   \<and> provetype (the (pProveData prove_cd)) = REPORT_CONTRACT_DATA
   \<and> branchId (the (pProveData prove_cd)) = 1
   \<and> blockHash (the (pProveData prove_cd)) = 2
   \<and> txHash (the (pProveData prove_cd)) = 3
   \<and> GetReportTxHashKey x0 report_cd = Some 4
   \<and> GetProveTxHashKey x0 prove_cd = Some 1
   \<and> GetReportTxHashKey x0 report_cd \<noteq> GetProveTxHashKey x0 prove_cd"
  by (simp add: GetReportTxHashKey_def GetProveTxHashKey_def report_cd_def prove_cd_def
      tx0_def IsReport_def x0_def)

text \<open>
  C5, amended.  For every report transaction and every prove transaction that carry the
  same report type, one of TX, COINBASE and MERKLETREE, and the same (reported branch
  id, reported block hash, reported tx hash) identity, \<^verbatim>\<open>GetReportTxHashKey\<close> applied to
  the report and \<^verbatim>\<open>GetProveTxHashKey\<close> applied to the prove compute the same hash, so
  that a report and its matching prove collide on one flag key.
\<close>

theorem report_prove_keys_agree:
  assumes "IsReport r" and "pReportData r = Some rd" and "pProveData p = Some pd"
    and "reporttype rd = provetype pd"
    and "provetype pd = REPORT_TX \<or> provetype pd = REPORT_COINBASE
         \<or> provetype pd = REPORT_MERKLETREE"
    and "reportedBranchId rd = branchId pd" and "reportedBlockHash rd = blockHash pd"
    and "reportedTxHash rd = txHash pd"
  shows "GetReportTxHashKey x r = GetProveTxHashKey x p"
  using assms by (auto simp: GetReportTxHashKey_def GetProveTxHashKey_def)

theorem report_prove_keys_agree_witness:
  "IsReport report7
   \<and> pReportData report7
       = Some \<lparr> reporttype = REPORT_MERKLETREE, reportedBranchId = 1,
                 reportedBlockHash = 2, reportedTxHash = 0 \<rparr>
   \<and> provetype (the (pProveData prove7)) = REPORT_MERKLETREE
   \<and> branchId (the (pProveData prove7)) = 1
   \<and> blockHash (the (pProveData prove7)) = 2
   \<and> txHash (the (pProveData prove7)) = 0
   \<and> GetReportTxHashKey x7 report7 = GetProveTxHashKey x7 prove7
   \<and> GetProveTxHashKey x7 prove7 = Some 4"
  using report_prove_keys_agree [where x = x7 and r = report7 and p = prove7
      and rd = "the (pReportData report7)" and pd = "the (pProveData prove7)"]
  by (simp add: GetProveTxHashKey_def report7_def prove7_def tx0_def IsReport_def x7_def x0_def)

section \<open>Properties of the prove validators\<close>

text \<open>
  None of the prove validators reads the flag table of the branch database, and the
  helper loops never report success through their failure branch.
\<close>

lemma HasBranchData_flags:
  "HasBranchData (db \<lparr> mReortTxFlag := f \<rparr>) = HasBranchData db"
  by (rule ext) (simp add: HasBranchData_def)

lemma GetBranchData_flags:
  "GetBranchData (db \<lparr> mReortTxFlag := f \<rparr>) = GetBranchData db"
  by (rule ext) (simp add: GetBranchData_def)

lemma CheckProveReportTx_flags_irrelevant:
  "CheckProveReportTx x (db \<lparr> mReortTxFlag := f \<rparr>) t = CheckProveReportTx x db t"
  unfolding CheckProveReportTx_def HasBranchData_flags GetBranchData_flags by (rule refl)

lemma CheckProveCoinbaseTx_flags_irrelevant:
  "CheckProveCoinbaseTx x (db \<lparr> mReortTxFlag := f \<rparr>) t = CheckProveCoinbaseTx x db t"
  unfolding CheckProveCoinbaseTx_def HasBranchData_flags GetBranchData_flags by (rule refl)

lemma CheckProveTx_flags_irrelevant:
  "CheckProveTx x (db \<lparr> mReortTxFlag := f \<rparr>) t = CheckProveTx x db t"
  unfolding CheckProveTx_def CheckProveReportTx_flags_irrelevant
    CheckProveCoinbaseTx_flags_irrelevant by (rule refl)

lemma prove_inputs_not_Accept:
  "prove_inputs x bd t cs i ps a b \<noteq> Inl Accept"
  by (induction x bd t cs i ps a b rule: prove_inputs.induct)
     (auto simp: Let_def split: option.splits if_splits)

lemma prove_outputs_not_Accept:
  "prove_outputs x t os a b \<noteq> Inl Accept"
  by (induction x t os a b rule: prove_outputs.induct) (auto simp: Let_def split: if_splits)

lemma CheckTransactionProveWithProveData_not_Accept:
  "CheckTransactionProveWithProveData x t ps bd j \<noteq> Inl Accept"
  using prove_inputs_not_Accept prove_outputs_not_Accept
  by (auto simp: CheckTransactionProveWithProveData_def Let_def
      split: if_splits sum.splits prod.splits)

lemma prove_block_txs_not_Accept:
  "prove_block_txs x bd ps a \<noteq> Inl Accept"
  using CheckTransactionProveWithProveData_not_Accept
  by (induction x bd ps a rule: prove_block_txs.induct) (auto split: sum.splits)

lemma prove_block_txs_Inr:
  "prove_block_txs x bd ps a0 = Inr tot \<longleftrightarrow>
     (\<exists>fees. map (\<lambda>(t, p). CheckTransactionProveWithProveData x t p bd False) ps = map Inr fees
        \<and> tot = a0 + sum_list fees)"
proof (induction ps arbitrary: a0)
  case Nil
  then show ?case by auto
next
  case (Cons a ps)
  obtain t p where a: "a = (t, p)" by (cases a)
  show ?case
  proof (cases "CheckTransactionProveWithProveData x t p bd False")
    case (Inl e)
    then show ?thesis using a by (auto simp: map_eq_Cons_conv)
  next
    case (Inr fee)
    show ?thesis
    proof
      assume "prove_block_txs x bd (a # ps) a0 = Inr tot"
      then have "prove_block_txs x bd ps (a0 + fee) = Inr tot" using a Inr by simp
      then obtain fees where
        "map (\<lambda>(t, p). CheckTransactionProveWithProveData x t p bd False) ps = map Inr fees"
        "tot = a0 + fee + sum_list fees"
        using Cons.IH by blast
      then show "\<exists>fees. map (\<lambda>(t, p). CheckTransactionProveWithProveData x t p bd False) (a # ps)
            = map Inr fees \<and> tot = a0 + sum_list fees"
        using a Inr by (intro exI [of _ "fee # fees"]) (simp add: add.assoc)
    next
      assume "\<exists>fees. map (\<lambda>(t, p). CheckTransactionProveWithProveData x t p bd False) (a # ps)
            = map Inr fees \<and> tot = a0 + sum_list fees"
      then obtain fees where f:
        "map (\<lambda>(t, p). CheckTransactionProveWithProveData x t p bd False) (a # ps) = map Inr fees"
        "tot = a0 + sum_list fees" by blast
      then obtain f0 fs where fs: "fees = f0 # fs" by (cases fees) auto
      with f a Inr have "f0 = fee"
        "map (\<lambda>(t, p). CheckTransactionProveWithProveData x t p bd False) ps = map Inr fs"
        by auto
      with f fs have "prove_block_txs x bd ps (a0 + fee) = Inr tot"
        using Cons.IH [of "a0 + fee"] by (auto simp: add.assoc)
      then show "prove_block_txs x bd (a # ps) a0 = Inr tot" using a Inr by simp
    qed
  qed
qed

text \<open>
  The fee that \<^verbatim>\<open>CheckTransactionProveWithProveData\<close> returns is the sum of the amounts the
  inputs are proven to spend minus the sum of the output values, and it is returned
  only when every input is proven and the outputs do not exceed the inputs.
\<close>

lemma prove_inputs_amounts:
  "prove_inputs x bd t cs i ps a b = Inr (a', b') \<Longrightarrow>
     \<exists>amounts. map (\<lambda>(txin, item). proven_amount x bd txin item) ps = map Some amounts
        \<and> a' = a + sum_list amounts"
proof (induction ps arbitrary: i a b)
  case Nil
  then show ?case by simp
next
  case (Cons p rest)
  obtain txin provDataItem where p: "p = (txin, provDataItem)" by (cases p)
  from Cons.prems p obtain pTx pBlockData r where d:
      "mapHeads bd (ProveDataItem.blockHash provDataItem) \<noteq> None"
      "DecodeTx x (tx provDataItem) = Some pTx"
      "GetBranchBlockData bd (blockhash (pCSP provDataItem)) = Some pBlockData"
      "CheckSpvProof x (hashMerkleRoot (header pBlockData)) (pmt (pCSP provDataItem))
         (GetHash x pTx) = Some r"
      "\<not> r < 0" "GetHash x pTx = hash (prevout txin)"
      "unat (n (prevout txin)) < length (vout pTx)"
    by (auto simp: Let_def not_le split: if_splits option.splits)
  let ?amount = "nValue (vout pTx ! unat (n (prevout txin)))"
  let ?script = "scriptPubKey (vout pTx ! unat (n (prevout txin)))"
  have pa: "proven_amount x bd txin provDataItem = Some ?amount"
    using d by (auto simp: proven_amount_def GetBranchBlockData_def)
  have rec: "prove_inputs x bd t cs (Suc i) rest (a + ?amount)
               (if IsContract x ?script then b + ?amount else b) = Inr (a', b')"
    using Cons.prems p d by (auto simp: Let_def not_le split: if_splits)
  from Cons.IH [OF rec] obtain amounts where
      "map (\<lambda>(txin, item). proven_amount x bd txin item) rest = map Some amounts"
      "a' = a + ?amount + sum_list amounts" by blast
  then show ?case using pa p
    by (intro exI [of _ "?amount # amounts"]) (simp add: add.assoc)
qed

lemma prove_outputs_sum:
  "prove_outputs x t os a b = Inr (a', b') \<Longrightarrow> a' = a + sum_list (map nValue os)"
  by (induction x t os a b rule: prove_outputs.induct)
     (auto simp: add.assoc split: if_splits)

lemma CheckTransactionProveWithProveData_fee:
  "CheckTransactionProveWithProveData x t items bd jumpFrist = Inr fee \<Longrightarrow>
     \<exists>amounts. map2 (proven_amount x bd) (vin t) (drop (if jumpFrist then 1 else 0) items)
                  = map Some amounts
        \<and> length amounts = length (vin t)
        \<and> fee = sum_list amounts - GetValueOut t
        \<and> sint (GetValueOut t) \<le> sint (sum_list amounts)"
proof -
  assume a: "CheckTransactionProveWithProveData x t items bd jumpFrist = Inr fee"
  then obtain nIn cIn nOut cOut where p:
      "prove_inputs x bd t (GetScriptForDestination x (contractAddr t)) 0
         (zip (vin t) (drop (if jumpFrist then 1 else 0) items)) 0 0 = Inr (nIn, cIn)"
      "prove_outputs x t (vout t) 0 0 = Inr (nOut, cOut)"
      "fee = nIn - nOut" "\<not> sint nIn < sint nOut"
      "length items = length (vin t) + (if jumpFrist then 1 else 0)"
    by (auto simp: CheckTransactionProveWithProveData_def Let_def
        split: if_splits sum.splits prod.splits)
  from prove_inputs_amounts [OF p(1)] obtain amounts where m:
      "map2 (proven_amount x bd) (vin t) (drop (if jumpFrist then 1 else 0) items)
         = map Some amounts" "nIn = sum_list amounts" by auto
  have "length (map2 (proven_amount x bd) (vin t) (drop (if jumpFrist then 1 else 0) items))
          = length (map Some amounts)"
    using m(1) by simp
  then have "length amounts = length (vin t)" using p(5) by simp
  moreover have "nOut = GetValueOut t"
    using prove_outputs_sum [OF p(2)] by (simp add: GetValueOut_def)
  ultimately show ?thesis using m p(3,4) by (intro exI [of _ amounts]) simp
qed

lemma fees_all2:
  "map f zs = map Inr fees \<Longrightarrow> (\<And>z fee. f z = Inr fee \<Longrightarrow> P z fee) \<Longrightarrow> list_all2 P zs fees"
  by (induction zs arbitrary: fees) (auto simp: map_eq_Cons_conv)

text \<open>
  C7.  If \<^verbatim>\<open>CheckProveCoinbaseTx\<close> accepts a prove transaction of type COINBASE or
  MERKLETREE, then the deserialised list \<open>vtx'\<close> recomputes the stored header's
  \<^verbatim>\<open>hashMerkleRoot\<close> without mutation, every transaction after the coinbase and the stake
  transaction passes \<^verbatim>\<open>CheckTransactionProveWithProveData\<close> with its prove-data items,
  yielding the fees \<open>fees\<close>; each fee is the sum of the amounts that the inputs of its
  transaction are proven to spend (\<open>proven_amount\<close>, one amount for every input) minus
  the sum of its output values,
  which does not exceed the inputs; and the outputs of the coinbase sum to exactly the
  sum of these fees.  If the coinbase pays any other value while those transactions
  pass, the prove transaction is rejected as INVALID.  All sums are sums of 64-bit
  amounts.
\<close>

theorem CheckProveCoinbaseTx_fees:
  "(CheckProveCoinbaseTx x db t = Accept \<longrightarrow>
      (\<exists>pd blockdata vtx' fees.
         pProveData t = Some pd
         \<and> (provetype pd = REPORT_COINBASE \<or> provetype pd = REPORT_MERKLETREE)
         \<and> mapHeads (GetBranchData db (branchId pd)) (blockHash pd) = Some blockdata
         \<and> DecodeVtx x (vtxData pd) = Some vtx'
         \<and> VecTxMerkleRoot x vtx' = (hashMerkleRoot (header blockdata), False)
         \<and> length vtx' = length (vecBlockTxProve pd) + 2
         \<and> map (\<lambda>(t, p). CheckTransactionProveWithProveData x t p
                            (GetBranchData db (branchId pd)) False)
               (zip (drop 2 vtx') (vecBlockTxProve pd)) = map Inr fees
         \<and> list_all2
               (\<lambda>(t, p) fee. \<exists>amounts.
                   map2 (proven_amount x (GetBranchData db (branchId pd))) (vin t) p
                     = map Some amounts
                   \<and> length amounts = length (vin t)
                   \<and> fee = sum_list amounts - GetValueOut t
                   \<and> sint (GetValueOut t) \<le> sint (sum_list amounts))
               (zip (drop 2 vtx') (vecBlockTxProve pd)) fees
         \<and> GetValueOut (vtx' ! 0) = sum_list fees))
   \<and> (IsProve t \<and> pProveData t = Some pd
        \<and> (provetype pd = REPORT_COINBASE \<or> provetype pd = REPORT_MERKLETREE)
        \<and> DecodeVtx x (vtxData pd) = Some vtx'
        \<and> map (\<lambda>(t, p). CheckTransactionProveWithProveData x t p
                            (GetBranchData db (branchId pd)) False)
               (zip (drop 2 vtx') (vecBlockTxProve pd)) = map Inr fees
        \<and> GetValueOut (vtx' ! 0) \<noteq> sum_list fees
      \<longrightarrow> (\<exists>level reason. CheckProveCoinbaseTx x db t = Reject level REJECT_INVALID reason))"
proof (intro conjI impI)
  assume acc: "CheckProveCoinbaseTx x db t = Accept"
  show "\<exists>pd blockdata vtx' fees.
         pProveData t = Some pd
         \<and> (provetype pd = REPORT_COINBASE \<or> provetype pd = REPORT_MERKLETREE)
         \<and> mapHeads (GetBranchData db (branchId pd)) (blockHash pd) = Some blockdata
         \<and> DecodeVtx x (vtxData pd) = Some vtx'
         \<and> VecTxMerkleRoot x vtx' = (hashMerkleRoot (header blockdata), False)
         \<and> length vtx' = length (vecBlockTxProve pd) + 2
         \<and> map (\<lambda>(t, p). CheckTransactionProveWithProveData x t p
                            (GetBranchData db (branchId pd)) False)
               (zip (drop 2 vtx') (vecBlockTxProve pd)) = map Inr fees
         \<and> list_all2
               (\<lambda>(t, p) fee. \<exists>amounts.
                   map2 (proven_amount x (GetBranchData db (branchId pd))) (vin t) p
                     = map Some amounts
                   \<and> length amounts = length (vin t)
                   \<and> fee = sum_list amounts - GetValueOut t
                   \<and> sint (GetValueOut t) \<le> sint (sum_list amounts))
               (zip (drop 2 vtx') (vecBlockTxProve pd)) fees
         \<and> GetValueOut (vtx' ! 0) = sum_list fees"
  proof -
    obtain pd blockdata vtx' fees where w:
        "pProveData t = Some pd"
        "provetype pd = REPORT_COINBASE \<or> provetype pd = REPORT_MERKLETREE"
        "mapHeads (GetBranchData db (branchId pd)) (blockHash pd) = Some blockdata"
        "DecodeVtx x (vtxData pd) = Some vtx'"
        "VecTxMerkleRoot x vtx' = (hashMerkleRoot (header blockdata), False)"
        "length vtx' = length (vecBlockTxProve pd) + 2"
        "map (\<lambda>(t, p). CheckTransactionProveWithProveData x t p
                            (GetBranchData db (branchId pd)) False)
               (zip (drop 2 vtx') (vecBlockTxProve pd)) = map Inr fees"
        "GetValueOut (vtx' ! 0) = sum_list fees"
      using acc prove_block_txs_not_Accept unfolding CheckProveCoinbaseTx_def
      by (auto simp: Let_def prove_block_txs_Inr
          split: option.splits if_splits prod.splits sum.splits)
    have "list_all2
               (\<lambda>(t, p) fee. \<exists>amounts.
                   map2 (proven_amount x (GetBranchData db (branchId pd))) (vin t) p
                     = map Some amounts
                   \<and> length amounts = length (vin t)
                   \<and> fee = sum_list amounts - GetValueOut t
                   \<and> sint (GetValueOut t) \<le> sint (sum_list amounts))
               (zip (drop 2 vtx') (vecBlockTxProve pd)) fees"
      by (rule fees_all2 [OF w(7)])
         (auto dest: CheckTransactionProveWithProveData_fee [where jumpFrist = False, simplified])
    with w show ?thesis by blast
  qed
next
  assume a: "IsProve t \<and> pProveData t = Some pd
        \<and> (provetype pd = REPORT_COINBASE \<or> provetype pd = REPORT_MERKLETREE)
        \<and> DecodeVtx x (vtxData pd) = Some vtx'
        \<and> map (\<lambda>(t, p). CheckTransactionProveWithProveData x t p
                            (GetBranchData db (branchId pd)) False)
               (zip (drop 2 vtx') (vecBlockTxProve pd)) = map Inr fees
        \<and> GetValueOut (vtx' ! 0) \<noteq> sum_list fees"
  then have p: "prove_block_txs x (GetBranchData db (branchId pd))
                 (zip (drop 2 vtx') (vecBlockTxProve pd)) 0 = Inr (sum_list fees)"
    by (simp add: prove_block_txs_Inr)
  show "\<exists>level reason. CheckProveCoinbaseTx x db t = Reject level REJECT_INVALID reason"
    using a p unfolding CheckProveCoinbaseTx_def
    by (auto simp: Let_def split: option.splits prod.splits)
qed

lemma pay7_fee:
  "CheckTransactionProveWithProveData x7 pay7 [item7] (GetBranchData db7 1) False = Inr 3"
  by (simp add: CheckTransactionProveWithProveData_def IsCoinBase_def pay7_def tx0_def item7_def
      x7_def x0_def src7_def GetBranchData_def db7_def block9_def block2_def header0_def
      GetBranchBlockData_def CheckSpvProof_def IsNull_def MoneyRange_def IsCallContract_def
      plain_script_def)

lemma prove7_accept: "CheckProveCoinbaseTx x7 db7 prove7 = Accept"
  using pay7_fee
  by (simp add: CheckProveCoinbaseTx_def prove7_def tx0_def IsProve_def HasBranchData_def
      GetBranchData_def db7_def block2_def header0_def x7_def x0_def GetValueOut_def cb7_def)

lemma pay7_proven:
  "map2 (proven_amount x7 (GetBranchData db7 1)) (vin pay7) [item7] = [Some 10]
   \<and> GetValueOut pay7 = 7"
  by (simp add: proven_amount_def pay7_def tx0_def item7_def x7_def x0_def src7_def
      GetBranchData_def db7_def block9_def block2_def header0_def CheckSpvProof_def
      GetValueOut_def)

lemma prove7bad_reject:
  "CheckProveCoinbaseTx x7 db7 prove7bad
     = Reject 100 REJECT_INVALID ''Prove coinbase transaction fail, fee invalid''"
  using pay7_fee
  by (simp add: CheckProveCoinbaseTx_def prove7bad_def tx0_def IsProve_def HasBranchData_def
      GetBranchData_def db7_def block2_def header0_def x7_def x0_def GetValueOut_def cb7_def
      cb7bad_def)

theorem CheckProveCoinbaseTx_fees_witness:
  "CheckProveCoinbaseTx x7 db7 prove7 = Accept
   \<and> DecodeVtx x7 [2] = Some [cb7, stake7, pay7]
   \<and> CheckTransactionProveWithProveData x7 pay7 [item7] (GetBranchData db7 1) False = Inr 3
   \<and> map2 (proven_amount x7 (GetBranchData db7 1)) (vin pay7) [item7] = [Some 10]
   \<and> GetValueOut pay7 = 7
   \<and> GetValueOut cb7 = sum_list [3]
   \<and> IsProve prove7bad
   \<and> DecodeVtx x7 [3] = Some [cb7bad, stake7, pay7]
   \<and> GetValueOut cb7bad = 4
   \<and> CheckProveCoinbaseTx x7 db7 prove7bad
       = Reject 100 REJECT_INVALID ''Prove coinbase transaction fail, fee invalid''"
  using CheckProveCoinbaseTx_fees [of x7 db7 prove7]
    CheckProveCoinbaseTx_fees [of x7 db7 prove7bad "the (pProveData prove7bad)"
      "[cb7bad, stake7, pay7]" "[3]"]
    prove7_accept prove7bad_reject pay7_fee pay7_proven
  by (simp add: x7_def GetValueOut_def cb7_def cb7bad_def tx0_def IsProve_def prove7bad_def)

section \<open>Properties of the duplicate check\<close>

lemma dup_prove_only:
  "IsProve t \<Longrightarrow> CheckBranchDuplicateTx x nd t c = dup_prove x nd t c"
  by (simp add: CheckBranchDuplicateTx_def dup_sync_def dup_step2_def dup_report_def
      IsProve_def IsSyncBranchInfo_def IsBranchChainTransStep2_def IsReport_def)

lemma dup_report_only:
  "IsReport t \<Longrightarrow> CheckBranchDuplicateTx x nd t c = dup_report x nd t c"
  by (simp add: CheckBranchDuplicateTx_def dup_sync_def dup_step2_def dup_prove_def
      IsProve_def IsSyncBranchInfo_def IsBranchChainTransStep2_def IsReport_def)

text \<open>
  C6.  A prove transaction whose flag key has no entry in the cache and in the database
  passes \<^verbatim>\<open>CheckBranchDuplicateTx\<close>, and the verdict of \<^verbatim>\<open>CheckProveTx\<close> on it is the same
  for every content \<open>flags\<close> of the flag table: a missing report never makes it fail.
  A prove whose key is flagged PROVED in the cache or in the database is rejected as
  DUPLICATE, and so is a report whose key is present, with any flag, in the cache or in
  the database.
\<close>

theorem prove_without_report_passes:
  "(IsProve t \<and> GetProveTxHashKey x t = Some k
      \<and> (\<forall>c. pBranchCache = Some c \<longrightarrow> mReortTxFlagCache c k = None)
      \<and> mReortTxFlag (pBranchDb nd) k = None
    \<longrightarrow> CheckBranchDuplicateTx x nd t pBranchCache = Accept
        \<and> CheckProveTx x (pBranchDb nd) t
            = CheckProveTx x (pBranchDb nd \<lparr> mReortTxFlag := flags \<rparr>) t)
   \<and> (IsProve t \<and> GetProveTxHashKey x t = Some k
      \<and> ((\<exists>c. pBranchCache = Some c \<and> mReortTxFlagCache c k = Some RP_FLAG_PROVED)
           \<or> mReortTxFlag (pBranchDb nd) k = Some RP_FLAG_PROVED)
    \<longrightarrow> (\<exists>reason. CheckBranchDuplicateTx x nd t pBranchCache
                      = Reject 0 REJECT_DUPLICATE reason))
   \<and> (IsReport t \<and> GetReportTxHashKey x t = Some k
      \<and> ((\<exists>c. pBranchCache = Some c \<and> mReortTxFlagCache c k \<noteq> None)
           \<or> mReortTxFlag (pBranchDb nd) k \<noteq> None)
    \<longrightarrow> (\<exists>reason. CheckBranchDuplicateTx x nd t pBranchCache
                      = Reject 0 REJECT_DUPLICATE reason))"
proof (intro conjI impI)
  assume a: "IsProve t \<and> GetProveTxHashKey x t = Some k
      \<and> (\<forall>c. pBranchCache = Some c \<longrightarrow> mReortTxFlagCache c k = None)
      \<and> mReortTxFlag (pBranchDb nd) k = None"
  then show "CheckBranchDuplicateTx x nd t pBranchCache = Accept"
    by (cases pBranchCache) (simp_all add: dup_prove_only dup_prove_def)
  show "CheckProveTx x (pBranchDb nd) t
            = CheckProveTx x (pBranchDb nd \<lparr> mReortTxFlag := flags \<rparr>) t"
    by (simp add: CheckProveTx_flags_irrelevant)
next
  assume a: "IsProve t \<and> GetProveTxHashKey x t = Some k
      \<and> ((\<exists>c. pBranchCache = Some c \<and> mReortTxFlagCache c k = Some RP_FLAG_PROVED)
           \<or> mReortTxFlag (pBranchDb nd) k = Some RP_FLAG_PROVED)"
  then show "\<exists>reason. CheckBranchDuplicateTx x nd t pBranchCache
                      = Reject 0 REJECT_DUPLICATE reason"
    by (cases pBranchCache) (auto simp: dup_prove_only dup_prove_def)
next
  assume a: "IsReport t \<and> GetReportTxHashKey x t = Some k
      \<and> ((\<exists>c. pBranchCache = Some c \<and> mReortTxFlagCache c k \<noteq> None)
           \<or> mReortTxFlag (pBranchDb nd) k \<noteq> None)"
  then show "\<exists>reason. CheckBranchDuplicateTx x nd t pBranchCache
                      = Reject 0 REJECT_DUPLICATE reason"
    by (cases pBranchCache) (auto simp: dup_report_only dup_report_def)
qed

lemma prove7_key: "GetProveTxHashKey x7 prove7 = Some 4"
  by (simp add: GetProveTxHashKey_def prove7_def tx0_def x7_def x0_def)

lemma report7_key: "GetReportTxHashKey x7 report7 = Some 4"
  by (simp add: GetReportTxHashKey_def report7_def tx0_def x7_def x0_def IsReport_def)

theorem prove_without_report_passes_witness:
  "IsProve prove7 \<and> GetProveTxHashKey x7 prove7 = Some 4
   \<and> mReortTxFlag (pBranchDb nd0) 4 = None
   \<and> CheckBranchDuplicateTx x7 nd0 prove7 None = Accept
   \<and> CheckProveTx x7 (pBranchDb nd0) prove7 = Accept
   \<and> CheckProveTx x7 (pBranchDb nd0 \<lparr> mReortTxFlag := [4 \<mapsto> RP_FLAG_REPORTED] \<rparr>) prove7 = Accept
   \<and> CheckBranchDuplicateTx x7
        (nd0 \<lparr> pBranchDb := db7 \<lparr> mReortTxFlag := [4 \<mapsto> RP_FLAG_PROVED] \<rparr> \<rparr>) prove7 None
       = Reject 0 REJECT_DUPLICATE ''duplicate prove in db''
   \<and> IsReport report7 \<and> GetReportTxHashKey x7 report7 = Some 4
   \<and> CheckBranchDuplicateTx x7 nd0 report7 (Some cache7)
       = Reject 0 REJECT_DUPLICATE ''duplicate report in cache''"
  using prove_without_report_passes [of prove7 x7 4 None nd0 "[4 \<mapsto> RP_FLAG_REPORTED]"]
    prove_without_report_passes [of prove7 x7 4 None
      "nd0 \<lparr> pBranchDb := db7 \<lparr> mReortTxFlag := [4 \<mapsto> RP_FLAG_PROVED] \<rparr> \<rparr>"]
    prove_without_report_passes [of report7 x7 4 "Some cache7" nd0]
    prove7_key report7_key prove7_accept
  by (simp add: dup_prove_only dup_report_only dup_prove_def dup_report_def IsProve_def
      IsReport_def prove7_def report7_def tx0_def nd0_def db7_def cache7_def CheckProveTx_def)

section \<open>Properties of the report reward check\<close>

text \<open>
  Whenever \<^verbatim>\<open>CheckReportRewardTransaction\<close> accepts, the report transaction is in the
  transaction index, its block is in the block index and on the active chain, and the
  height of that block exceeds the height of \<open>pindex\<close> by at least
  \<^verbatim>\<open>REPORT_OUTOF_HEIGHT\<close>: the difference the function tests is the report height minus
  the height of \<open>pindex\<close>, computed in 32 bits.
\<close>

lemma CheckReportRewardTransaction_accept:
  "CheckReportRewardTransaction x nd t pindex = Accept \<Longrightarrow>
     \<exists>ptxReport reporthashBlock rpBlockIndex.
        ReadTxDataByTxIndex nd (reporttxid t) = (Some ptxReport, reporthashBlock)
        \<and> mapBlockIndex nd reporthashBlock = Some rpBlockIndex
        \<and> Contains (chainActive nd) rpBlockIndex
        \<and> REPORT_OUTOF_HEIGHT x \<le> sint (nHeight rpBlockIndex - nHeight pindex)"
  unfolding CheckReportRewardTransaction_def
  by (auto split: if_splits option.splits prod.splits)

lemma report1_key: "GetReportTxHashKey x0 report1 = Some 4"
  by (simp add: GetReportTxHashKey_def report1_def tx0_def x0_def IsReport_def)

lemma coin_script_data: "GetMortgageCoinData x0 coin_script False = Some (32, [1, 2], 0)"
  by (simp add: GetMortgageCoinData_def mortgage_tail_def coin_script_def x0_def)

lemma reward1_payout:
  "reward_payout x0 reward1 report1
     (block2 \<lparr> pStakeTx := Some stake1, mapReportStatus := [4 \<mapsto> RP_FLAG_REPORTED] \<rparr>) = Accept"
  by (simp add: reward_payout_def block2_def stake1_def tx0_def coin_script_data reward1_def
      report1_def signed_divide_int_def)

lemma chain_contains: "Contains (chainActive nd1) (index_at 10)"
  by (simp add: Contains_def nd1_def nd0_def index_at_def)

text \<open>
  C1.  With \<^verbatim>\<open>REPORT_OUTOF_HEIGHT\<close> = 10 and the report confirmed at height 10 of the
  active chain, the reward transaction \<open>reward1\<close> is rejected as still in the prove
  stage when \<open>pindex\<close> is at height 20, where the age of the report block is 10, and it
  is accepted when \<open>pindex\<close> is at height 0, where the report block lies 10 blocks
  above \<open>pindex\<close>.
\<close>

theorem report_reward_window_reversed:
  "REPORT_OUTOF_HEIGHT x0 = 10
   \<and> CheckReportRewardTransaction x0 nd1 reward1 (index_at 20)
       = Reject 100 REJECT_INVALID ''Still in prove stage.''
   \<and> CheckReportRewardTransaction x0 nd1 reward1 (index_at 0) = Accept"
  using reward1_payout chain_contains report1_key
  by (simp add: CheckReportRewardTransaction_def reward1_def tx0_def IsReportReward_def
      nd1_def nd0_def report1_def IsReport_def index_at_def HasBranchData_def GetBranchData_def
      x0_def)

section \<open>Properties of the cross-chain amounts\<close>

text \<open>
  The loops of \<^verbatim>\<open>GetBranchChainTransOut\<close> and \<^verbatim>\<open>GetMortgageMineOut\<close> compute the sums the
  specification describes.
\<close>

lemma trans_step:
  "(case GetOp s of
      (ok1, opcode1, vch1, pc1) \<Rightarrow>
        if ok1 then
          (if dest \<noteq> MAIN then
             (if opcode1 = OP_TRANS_BRANCH then
                (case GetOp pc1 of
                   (ok2, opcode2, vch2, pc2) \<Rightarrow>
                     if ok2 \<and> length vch2 = 32 then
                       (if ToString x (uint256_of x vch2) = dest then (a::CellAmount) + v else a)
                     else a)
              else a)
           else
             (if opcode1 = OP_RETURN then
                (case GetOp pc1 of
                   (ok2, opcode2, vch2, pc2) \<Rightarrow>
                     if opcode2 = OP_TRANS_BRANCH then a + v else a)
              else a))
        else a)
   = (if (if dest \<noteq> MAIN then starts_trans_branch_to x dest s
          else starts_return_trans_branch s)
      then a + v else a)"
proof (cases s rule: GetOp.cases)
  case (3 opcode vch pc)
  then show ?thesis by (cases pc rule: GetOp.cases) auto
qed auto

lemma GetBranchChainTransOut_loop_sum:
  "GetBranchChainTransOut_loop x dest outs a =
     a + sum_list (map nValue
           (filter (\<lambda>txout. if dest \<noteq> MAIN then starts_trans_branch_to x dest (scriptPubKey txout)
                             else starts_return_trans_branch (scriptPubKey txout)) outs))"
proof (induction outs arbitrary: a)
  case Nil
  then show ?case by simp
next
  case (Cons txout outs)
  show ?case
    unfolding GetBranchChainTransOut_loop.simps trans_step Cons.IH
    by (simp add: add.assoc)
qed

lemma mortgage_step:
  "(case GetOp s of
      (ok1, opcode1, vch1, pc1) \<Rightarrow>
        if ok1 = False then a
        else
          let nAmount1 = (if opcode1 = OP_MINE_BRANCH_MORTGAGE then (a::CellAmount) + v else a)
          in if bWithBranchOut \<and> opcode1 = OP_TRANS_BRANCH then
               (case GetOp pc1 of
                  (ok2, opcode2, vch2, pc2) \<Rightarrow>
                    if ok2 \<and> length vch2 = 32 then
                      (if ToString x (uint256_of x vch2) = dest then nAmount1 + v else nAmount1)
                    else nAmount1)
             else nAmount1)
   = (if starts_mine_branch_mortgage s \<or> bWithBranchOut \<and> starts_trans_branch_to x dest s
      then a + v else a)"
proof (cases s rule: GetOp.cases)
  case (3 opcode vch pc)
  then show ?thesis by (cases pc rule: GetOp.cases) auto
qed auto

lemma GetMortgageMineOut_loop_sum:
  "GetMortgageMineOut_loop x dest True outs a =
     a + sum_list (map nValue
           (filter (\<lambda>txout. starts_mine_branch_mortgage (scriptPubKey txout)
                      \<or> starts_trans_branch_to x dest (scriptPubKey txout)) outs))"
proof (induction outs arbitrary: a)
  case Nil
  then show ?case by simp
next
  case (Cons txout outs)
  show ?case
    unfolding GetMortgageMineOut_loop.simps mortgage_step Cons.IH
    by (simp add: add.assoc)
qed

lemma GetBranchChainOut_spec: "GetBranchChainOut x t = spec_branch_out x t"
  by (simp add: GetBranchChainOut_def spec_branch_out_def GetBranchChainTransOut_def
      GetMortgageMineOut_def GetBranchChainTransOut_loop_sum GetMortgageMineOut_loop_sum)

section \<open>Properties of the step-2 validation\<close>

lemma RevertTransaction_step2:
  "IsBranchChainTransStep2 t \<Longrightarrow> (IsMortgage f \<Longrightarrow> vout t \<noteq> []) \<Longrightarrow>
     RevertTransaction x t (Some f) True = Some (spec_revert x t f)"
  by (cases "vout t")
     (auto simp: RevertTransaction_def spec_revert_def Let_def null_input_def
        IsBranchChainTransStep2_def IsSmartContract_def)

lemma branch_tx_mortgage_vout:
  "branch_tx_mortgage x stx txTrans1 = Accept \<Longrightarrow> IsMortgage txTrans1 \<Longrightarrow> vout stx \<noteq> []"
  by (auto simp: branch_tx_mortgage_def split: list.splits option.splits if_splits)

lemma CheckBranchTransaction_accept_parts:
  "CheckBranchTransaction x nd stx fVerifingDB pFromTx = Accept \<Longrightarrow>
     \<exists>txTrans1. pFromTx = Some txTrans1 \<and> IsBranchChainTransStep2 stx
        \<and> fromBranchId stx \<noteq> GetBranchId nd
        \<and> branch_tx_mortgage x stx txTrans1 = Accept
        \<and> branch_tx_local x stx txTrans1 = Accept"
  unfolding CheckBranchTransaction_def
  by (auto split: if_splits option.splits)

lemma branch_tx_local_accept:
  "branch_tx_local x stx txTrans1 = Accept \<Longrightarrow>
     \<exists>decoded reverted. DecodeHexTx x (sendToTxHexData txTrans1) = Some decoded
        \<and> RevertTransaction x stx (Some txTrans1) True = Some reverted
        \<and> GetHash x decoded = GetHash x reverted
        \<and> GetBranchChainOut x txTrans1 = inAmount stx
        \<and> MoneyRange x (inAmount stx)
        \<and> sint (nOrginalOut x stx) \<le> sint (inAmount stx)"
  unfolding branch_tx_local_def
  by (auto split: if_splits option.splits)

lemma branch_tx_rpc_accept:
  "branch_tx_rpc x cfg fromTxHash = Accept \<Longrightarrow>
     \<exists>hex mtxTrans1 c.
        get_str (find_value (find_value
            (CallRPC x cfg ''getbranchchaintransaction'' [VSTR fromTxHash]) ''result'') ''hex'')
          = Some hex
        \<and> DecodeHexTx x hex = Some mtxTrans1
        \<and> ToString x (GetHash x mtxTrans1) = fromTxHash
        \<and> get_int (find_value (find_value
            (CallRPC x cfg ''getbranchchaintransaction'' [VSTR fromTxHash]) ''result'')
              ''confirmations'') = Some c
        \<and> BRANCH_CHAIN_MATURITY x + 1 \<le> c"
  unfolding branch_tx_rpc_def
  by (auto simp: Let_def not_less split: if_splits option.splits)

lemma get_int_number:
  "get_int v = Some c \<Longrightarrow>
     \<exists>i. v = VNUM i \<and> - (2 ^ 31) \<le> i \<and> i < 2 ^ 31 \<and> c = word_of_int i"
  by (cases v) (auto split: if_splits)

lemma maturity_reading:
  "get_int v = Some c \<Longrightarrow> m \<le> c \<Longrightarrow>
     \<exists>i. v = VNUM i \<and> (0 \<le> i \<longrightarrow> uint m \<le> i)"
proof -
  assume g: "get_int v = Some c" and mc: "m \<le> c"
  from get_int_number [OF g] obtain i where
      i: "v = VNUM i" "- (2 ^ 31) \<le> i" "i < 2 ^ 31" "c = word_of_int i" by blast
  have "0 \<le> i \<Longrightarrow> uint c = i"
    using i(3,4) by (simp add: uint_word_of_int take_bit_int_eq_self)
  then have "0 \<le> i \<longrightarrow> uint m \<le> i"
    using mc by (auto simp: word_le_def)
  with i(1) show ?thesis by blast
qed

lemma branch_tx_rpc_confirmed:
  "branch_tx_rpc x cfg fromTxHash = Accept \<Longrightarrow>
     \<exists>hex mtxTrans1 i.
        get_str (find_value (find_value
            (CallRPC x cfg ''getbranchchaintransaction'' [VSTR fromTxHash]) ''result'') ''hex'')
          = Some hex
        \<and> DecodeHexTx x hex = Some mtxTrans1
        \<and> ToString x (GetHash x mtxTrans1) = fromTxHash
        \<and> find_value (find_value
            (CallRPC x cfg ''getbranchchaintransaction'' [VSTR fromTxHash]) ''result'')
              ''confirmations'' = VNUM i
        \<and> (0 \<le> i \<longrightarrow> uint (BRANCH_CHAIN_MATURITY x + 1) \<le> i)"
proof -
  assume "branch_tx_rpc x cfg fromTxHash = Accept"
  from branch_tx_rpc_accept [OF this] obtain hex mtxTrans1 c where h:
      "get_str (find_value (find_value
            (CallRPC x cfg ''getbranchchaintransaction'' [VSTR fromTxHash]) ''result'') ''hex'')
          = Some hex"
      "DecodeHexTx x hex = Some mtxTrans1"
      "ToString x (GetHash x mtxTrans1) = fromTxHash"
      "get_int (find_value (find_value
            (CallRPC x cfg ''getbranchchaintransaction'' [VSTR fromTxHash]) ''result'')
              ''confirmations'') = Some c"
      "BRANCH_CHAIN_MATURITY x + 1 \<le> c" by blast
  from maturity_reading [OF h(4,5)] h(1,2,3) show ?thesis by blast
qed

lemma branch_tx_rpc_immature:
  assumes "find_value (find_value
            (CallRPC x cfg ''getbranchchaintransaction'' [VSTR fromTxHash]) ''result'')
              ''confirmations'' = VNUM i"
    and "0 \<le> i" and "i < uint (BRANCH_CHAIN_MATURITY x + 1)"
  shows "branch_tx_rpc x cfg fromTxHash \<noteq> Accept"
proof
  assume "branch_tx_rpc x cfg fromTxHash = Accept"
  from branch_tx_rpc_confirmed [OF this] assms show False by auto
qed

text \<open>
  Unless \<^verbatim>\<open>BRANCH_CHAIN_MATURITY\<close> is the largest 32-bit value, the \<^verbatim>\<open>maturity + 1\<close> of the
  source is the integer \<^verbatim>\<open>BRANCH_CHAIN_MATURITY\<close> plus one.
\<close>

lemma maturity_plus_one:
  "BRANCH_CHAIN_MATURITY x \<noteq> - 1 \<Longrightarrow>
     uint (BRANCH_CHAIN_MATURITY x + 1) = uint (BRANCH_CHAIN_MATURITY x) + 1"
proof -
  let ?w = "BRANCH_CHAIN_MATURITY x"
  assume a: "?w \<noteq> - 1"
  have "uint ?w \<noteq> 2 ^ 32 - 1"
  proof
    assume "uint ?w = 2 ^ 32 - 1"
    then have "word_of_int (uint ?w) = (word_of_int (2 ^ 32 - 1) :: 32 word)" by simp
    then have "?w = - 1" by simp
    with a show False by simp
  qed
  moreover have "uint ?w < 2 ^ 32" using uint_bounded [of ?w] by simp
  ultimately have "uint ?w + 1 < 2 ^ 32" by linarith
  then show ?thesis by (simp add: uint_word_ariths take_bit_int_eq_self)
qed

lemma step1a_hash: "GetHash (xa \<lparr> CallRPC := f \<rparr>) step1a = 100"
  by (simp add: xa_def x0_def step1a_def tx0_def)

lemma step1a_out: "GetBranchChainOut y step1a = 5"
  by (simp add: GetBranchChainOut_def GetBranchChainTransOut_def IsBranchChainTransStep1_def
      step1a_def tx0_def to_main_script_def MAIN_def)

lemma step2a_revert: "spec_revert (xa \<lparr> CallRPC := f \<rparr>) step2a step1a = decodedA"
  by (simp add: spec_revert_def step2a_def decodedA_def tx0_def step1a_def IsMortgage_def
      MAIN_def xa_def x0_def)

lemma step2a_mortgage: "branch_tx_mortgage y step2a step1a = Accept"
  by (simp add: branch_tx_mortgage_def IsMortgage_def step1a_def tx0_def)

lemma step2a_is_step2: "IsBranchChainTransStep2 step2a"
  by (simp add: IsBranchChainTransStep2_def step2a_def decodedA_def tx0_def)

lemma step2a_local: "branch_tx_local (xa \<lparr> CallRPC := f \<rparr>) step2a step1a = Accept"
proof -
  have r: "RevertTransaction (xa \<lparr> CallRPC := f \<rparr>) step2a (Some step1a) True = Some decodedA"
    using RevertTransaction_step2 [of step2a step1a "xa \<lparr> CallRPC := f \<rparr>"] step2a_is_step2
      step2a_revert [of f]
    by (simp add: IsMortgage_def step1a_def tx0_def)
  have d: "DecodeHexTx (xa \<lparr> CallRPC := f \<rparr>) (sendToTxHexData step1a) = Some decodedA"
    by (simp add: xa_def step1a_def tx0_def)
  show ?thesis
    unfolding branch_tx_local_def d r using step1a_out [of "xa \<lparr> CallRPC := f \<rparr>"]
    by (simp add: MoneyRange_def nOrginalOut_def step2a_def decodedA_def tx0_def xa_def x0_def
        MAIN_def plain_script_def)
qed

lemma step2a_head:
  "IsBranchChainTransStep2 step2a \<and> fromBranchId step2a = ''b1''
   \<and> GetBranchId nd_rpc = ''main'' \<and> GetBranchId nd_bypass = ''main''
   \<and> GetRpcConfig nd_rpc ''b1'' = Some cfg1 \<and> GetRpcConfig nd_bypass ''b1'' = None
   \<and> IsValid cfg1 \<and> \<not> unchecknoconfigbranch nd_rpc \<and> unchecknoconfigbranch nd_bypass
   \<and> IsMainChain nd_bypass
   \<and> GetBranchId nd_flag = ''main'' \<and> GetRpcConfig nd_flag ''b1'' = Some cfg1
   \<and> IsMainChain nd_flag \<and> unchecknoconfigbranch nd_flag"
  by (simp add: IsBranchChainTransStep2_def step2a_def decodedA_def tx0_def nd_rpc_def
      nd_bypass_def nd_flag_def nd0_def GetRpcConfig_def IsValid_def cfg1_def)

lemma step2a_rpc7: "branch_tx_rpc xa cfg1 ''64'' = Accept"
  by (simp add: branch_tx_rpc_def xa_def x0_def reply_with_def step1a_def tx0_def)

lemma step2a_rpc6: "branch_tx_rpc xa6 cfg1 ''64'' = Fail"
  by (simp add: branch_tx_rpc_def xa6_def xa_def x0_def reply_with_def step1a_def tx0_def)

lemma step2a_rpc_negative: "branch_tx_rpc xaneg cfg1 ''64'' = Accept"
  by (simp add: branch_tx_rpc_def xaneg_def xa_def x0_def reply_with_def step1a_def tx0_def)

lemma step1a_string: "ToString (xa \<lparr> CallRPC := f \<rparr>) (GetHash (xa \<lparr> CallRPC := f \<rparr>) step1a) = ''64''"
  unfolding step1a_hash by (simp add: xa_def)

lemma xa_self: "xa \<lparr> CallRPC := CallRPC xa \<rparr> = xa"
  by simp

lemma step2a_accept: "CheckBranchTransaction xa nd_rpc step2a False (Some step1a) = Accept"
  using step2a_head step2a_mortgage [of xa] step2a_local [of "CallRPC xa"]
    step1a_string [of "CallRPC xa"] step2a_rpc7
  by (simp add: CheckBranchTransaction_def)

lemma step2a_immature: "CheckBranchTransaction xa6 nd_rpc step2a False (Some step1a) = Fail"
  using step2a_head step2a_mortgage [of xa6] step2a_local [of "CallRPC xa6"]
    step1a_string [of "CallRPC xa6"] step2a_rpc6
  by (simp add: CheckBranchTransaction_def xa6_def)

text \<open>
  A reply that reports -1 confirmations is accepted.
\<close>

lemma step2a_negative_confirmations:
  "CheckBranchTransaction xaneg nd_rpc step2a False (Some step1a) = Accept"
  using step2a_head step2a_mortgage [of xaneg] step2a_local [of "CallRPC xaneg"]
    step1a_string [of "CallRPC xaneg"] step2a_rpc_negative
  by (simp add: CheckBranchTransaction_def xaneg_def)

text \<open>
  A main-chain node with \<^verbatim>\<open>-unchecknoconfigbranch\<close> set and a valid configuration of the
  source branch asks the source chain like any other node.
\<close>

lemma step2a_flag_accept: "CheckBranchTransaction xa nd_flag step2a False (Some step1a) = Accept"
  using step2a_head step2a_mortgage [of xa] step2a_local [of "CallRPC xa"]
    step1a_string [of "CallRPC xa"] step2a_rpc7
  by (simp add: CheckBranchTransaction_def)

lemma step2a_flag_immature: "CheckBranchTransaction xa6 nd_flag step2a False (Some step1a) = Fail"
  using step2a_head step2a_mortgage [of xa6] step2a_local [of "CallRPC xa6"]
    step1a_string [of "CallRPC xa6"] step2a_rpc6
  by (simp add: CheckBranchTransaction_def xa6_def)

lemma step2a_bypass: "CheckBranchTransaction xa nd_bypass step2a False (Some step1a) = Accept"
  using step2a_head step2a_mortgage [of xa] step2a_local [of "CallRPC xa"]
  by (simp add: CheckBranchTransaction_def)

lemma step2wide_hash:
  "IsBranchChainTransStep2 step2wide \<and> fromBranchId step2wide = ''b1''
   \<and> branch_tx_mortgage xa step2wide step1a = Accept
   \<and> DecodeHexTx xa (sendToTxHexData step1a) = Some decodedA
   \<and> GetHash xa decodedA = 5110 \<and> GetHash xa (spec_revert xa step2wide step1a) = 5210"
  by (simp add: IsBranchChainTransStep2_def step2wide_def step2a_def decodedA_def tx0_def
      branch_tx_mortgage_def IsMortgage_def step1a_def xa_def x0_def spec_revert_def MAIN_def
      null_input_def)

lemma step1b_facts:
  "branch_tx_mortgage xa step2a step1b = Accept
   \<and> DecodeHexTx xa (sendToTxHexData step1b) = Some decodedA
   \<and> spec_revert xa step2a step1b = decodedA
   \<and> GetBranchChainOut xa step1b = 4 \<and> inAmount step2a = 5"
  by (simp add: branch_tx_mortgage_def IsMortgage_def step1b_def step1a_def tx0_def xa_def
      x0_def spec_revert_def MAIN_def step2a_def decodedA_def GetBranchChainOut_def
      GetBranchChainTransOut_def IsBranchChainTransStep1_def to_main_script_def)

text \<open>
  C2.  If \<^verbatim>\<open>CheckBranchTransaction\<close> accepts a step-2 transaction, the transaction
  decoded from \<^verbatim>\<open>sendToTxHexData\<close> of its step-1 source has the hash of the reverted
  step-2, and the reverted step-2 that \<^verbatim>\<open>RevertTransaction\<close> computes is the one the
  specification describes (\<open>spec_revert\<close>).  When the earlier checks pass and the two
  hashes differ, the transaction is rejected as INVALID with ban score 100.
\<close>

theorem step2_hash_matches_step1:
  "(CheckBranchTransaction x nd stx fVerifingDB pFromTx = Accept \<longrightarrow>
      (\<exists>txTrans1 decoded. pFromTx = Some txTrans1
         \<and> DecodeHexTx x (sendToTxHexData txTrans1) = Some decoded
         \<and> RevertTransaction x stx (Some txTrans1) True = Some (spec_revert x stx txTrans1)
         \<and> GetHash x decoded = GetHash x (spec_revert x stx txTrans1)))
   \<and> (IsBranchChainTransStep2 stx \<and> fromBranchId stx \<noteq> GetBranchId nd
        \<and> branch_tx_mortgage x stx txTrans1' = Accept
        \<and> DecodeHexTx x (sendToTxHexData txTrans1') = Some decoded'
        \<and> GetHash x decoded' \<noteq> GetHash x (spec_revert x stx txTrans1')
      \<longrightarrow> CheckBranchTransaction x nd stx fVerifingDB (Some txTrans1')
            = Reject 100 REJECT_INVALID (''%s transaction hash error'' @ endl))"
proof (intro conjI impI)
  assume "CheckBranchTransaction x nd stx fVerifingDB pFromTx = Accept"
  then obtain txTrans1 where p: "pFromTx = Some txTrans1" "IsBranchChainTransStep2 stx"
      "branch_tx_mortgage x stx txTrans1 = Accept" "branch_tx_local x stx txTrans1 = Accept"
    using CheckBranchTransaction_accept_parts by blast
  then have r: "RevertTransaction x stx (Some txTrans1) True = Some (spec_revert x stx txTrans1)"
    using RevertTransaction_step2 branch_tx_mortgage_vout by blast
  from p(4) obtain decoded where "DecodeHexTx x (sendToTxHexData txTrans1) = Some decoded"
      "GetHash x decoded = GetHash x (spec_revert x stx txTrans1)"
    using branch_tx_local_accept r by fastforce
  with p(1) r show "\<exists>txTrans1 decoded. pFromTx = Some txTrans1
         \<and> DecodeHexTx x (sendToTxHexData txTrans1) = Some decoded
         \<and> RevertTransaction x stx (Some txTrans1) True = Some (spec_revert x stx txTrans1)
         \<and> GetHash x decoded = GetHash x (spec_revert x stx txTrans1)"
    by blast
next
  assume a: "IsBranchChainTransStep2 stx \<and> fromBranchId stx \<noteq> GetBranchId nd
        \<and> branch_tx_mortgage x stx txTrans1' = Accept
        \<and> DecodeHexTx x (sendToTxHexData txTrans1') = Some decoded'
        \<and> GetHash x decoded' \<noteq> GetHash x (spec_revert x stx txTrans1')"
  then have r: "RevertTransaction x stx (Some txTrans1') True = Some (spec_revert x stx txTrans1')"
    using RevertTransaction_step2 branch_tx_mortgage_vout by blast
  have "branch_tx_local x stx txTrans1'
          = Reject 100 REJECT_INVALID (''%s transaction hash error'' @ endl)"
    using a r by (simp add: branch_tx_local_def)
  then show "CheckBranchTransaction x nd stx fVerifingDB (Some txTrans1')
            = Reject 100 REJECT_INVALID (''%s transaction hash error'' @ endl)"
    using a by (simp add: CheckBranchTransaction_def)
qed

theorem step2_hash_matches_step1_witness:
  "CheckBranchTransaction xa nd_rpc step2a False (Some step1a) = Accept
   \<and> DecodeHexTx xa (sendToTxHexData step1a) = Some decodedA
   \<and> spec_revert xa step2a step1a = decodedA
   \<and> IsBranchChainTransStep2 step2wide \<and> fromBranchId step2wide = ''b1''
   \<and> GetBranchId nd_rpc = ''main''
   \<and> branch_tx_mortgage xa step2wide step1a = Accept
   \<and> GetHash xa decodedA = 5110 \<and> GetHash xa (spec_revert xa step2wide step1a) = 5210
   \<and> CheckBranchTransaction xa nd_rpc step2wide False (Some step1a)
       = Reject 100 REJECT_INVALID (''%s transaction hash error'' @ endl)"
  using step2_hash_matches_step1 [where x = xa and nd = nd_rpc and stx = step2a
      and fVerifingDB = False and pFromTx = "Some step1a"]
    step2_hash_matches_step1 [where x = xa and nd = nd_rpc and stx = step2wide
      and fVerifingDB = False and txTrans1' = step1a and decoded' = decodedA]
    step2a_accept step2wide_hash step2a_head step2a_revert [of "CallRPC xa"]
  by simp

text \<open>
  C3.  If \<^verbatim>\<open>CheckBranchTransaction\<close> accepts, \<^verbatim>\<open>inAmount\<close> equals
  \<^verbatim>\<open>GetBranchChainOut\<close> of the step-1 transaction, and that amount is the sum the
  specification describes: for a step-1 transaction the outputs that start with
  \<^verbatim>\<open>OP_TRANS_BRANCH\<close> and a 32-byte hash naming the destination branch, or with
  \<^verbatim>\<open>OP_RETURN OP_TRANS_BRANCH\<close> when the destination is the main chain; for a mortgage
  the outputs that start with \<^verbatim>\<open>OP_MINE_BRANCH_MORTGAGE\<close> together with those that start
  with \<^verbatim>\<open>OP_TRANS_BRANCH\<close> and the destination hash.  When the earlier checks pass and
  \<^verbatim>\<open>inAmount\<close> differs, the transaction is rejected as INVALID with ban score 100.
\<close>

theorem step2_inAmount_is_branch_out:
  "(CheckBranchTransaction x nd stx fVerifingDB pFromTx = Accept \<longrightarrow>
      (\<exists>txTrans1. pFromTx = Some txTrans1 \<and> inAmount stx = GetBranchChainOut x txTrans1))
   \<and> GetBranchChainOut x txTrans1' = spec_branch_out x txTrans1'
   \<and> (IsBranchChainTransStep2 stx \<and> fromBranchId stx \<noteq> GetBranchId nd
        \<and> branch_tx_mortgage x stx txTrans1' = Accept
        \<and> DecodeHexTx x (sendToTxHexData txTrans1') = Some decoded'
        \<and> GetHash x decoded' = GetHash x (spec_revert x stx txTrans1')
        \<and> inAmount stx \<noteq> GetBranchChainOut x txTrans1'
      \<longrightarrow> CheckBranchTransaction x nd stx fVerifingDB (Some txTrans1')
            = Reject 100 REJECT_INVALID ('' %s Invalid inAmount!'' @ endl))"
proof (intro conjI impI)
  assume "CheckBranchTransaction x nd stx fVerifingDB pFromTx = Accept"
  then show "\<exists>txTrans1. pFromTx = Some txTrans1 \<and> inAmount stx = GetBranchChainOut x txTrans1"
    using CheckBranchTransaction_accept_parts branch_tx_local_accept by metis
next
  show "GetBranchChainOut x txTrans1' = spec_branch_out x txTrans1'"
    by (rule GetBranchChainOut_spec)
next
  assume a: "IsBranchChainTransStep2 stx \<and> fromBranchId stx \<noteq> GetBranchId nd
        \<and> branch_tx_mortgage x stx txTrans1' = Accept
        \<and> DecodeHexTx x (sendToTxHexData txTrans1') = Some decoded'
        \<and> GetHash x decoded' = GetHash x (spec_revert x stx txTrans1')
        \<and> inAmount stx \<noteq> GetBranchChainOut x txTrans1'"
  then have r: "RevertTransaction x stx (Some txTrans1') True = Some (spec_revert x stx txTrans1')"
    using RevertTransaction_step2 branch_tx_mortgage_vout by blast
  have "branch_tx_local x stx txTrans1'
          = Reject 100 REJECT_INVALID ('' %s Invalid inAmount!'' @ endl)"
    using a r by (auto simp: branch_tx_local_def)
  then show "CheckBranchTransaction x nd stx fVerifingDB (Some txTrans1')
            = Reject 100 REJECT_INVALID ('' %s Invalid inAmount!'' @ endl)"
    using a by (simp add: CheckBranchTransaction_def)
qed

theorem step2_inAmount_is_branch_out_witness:
  "CheckBranchTransaction xa nd_rpc step2a False (Some step1a) = Accept
   \<and> inAmount step2a = 5 \<and> GetBranchChainOut xa step1a = 5 \<and> spec_branch_out xa step1a = 5
   \<and> IsBranchChainTransStep2 step2a \<and> fromBranchId step2a = ''b1''
   \<and> GetBranchId nd_rpc = ''main''
   \<and> branch_tx_mortgage xa step2a step1b = Accept
   \<and> DecodeHexTx xa (sendToTxHexData step1b) = Some decodedA
   \<and> spec_revert xa step2a step1b = decodedA
   \<and> GetBranchChainOut xa step1b = 4
   \<and> CheckBranchTransaction xa nd_rpc step2a False (Some step1b)
       = Reject 100 REJECT_INVALID ('' %s Invalid inAmount!'' @ endl)"
  using step2_inAmount_is_branch_out [where x = xa and nd = nd_rpc and stx = step2a
      and fVerifingDB = False and pFromTx = "Some step1a" and txTrans1' = step1b
      and decoded' = decodedA]
    step2_inAmount_is_branch_out [where x = xa and txTrans1' = step1a]
    step2a_accept step1b_facts step2a_head step1a_out [of xa]
  by simp

text \<open>
  C4, as the claim states it, fails.  On the main chain, with no RPC configuration for
  the source branch and \<^verbatim>\<open>-unchecknoconfigbranch\<close> set, the transaction is accepted
  outside the verify-db fast path without any question to the source chain.  And a
  reply of the source chain that reports -1 confirmations, which is less than
  \<^verbatim>\<open>BRANCH_CHAIN_MATURITY\<close> = 6, is accepted.
\<close>

theorem step2_accepted_unconfirmed:
  "CheckBranchTransaction xa nd_bypass step2a False (Some step1a) = Accept
   \<and> GetRpcConfig nd_bypass (fromBranchId step2a) = None
   \<and> CheckBranchTransaction xaneg nd_rpc step2a False (Some step1a) = Accept
   \<and> GetRpcConfig nd_rpc (fromBranchId step2a) = Some cfg1
   \<and> CallRPC xaneg cfg1 ''getbranchchaintransaction'' [VSTR ''64''] = reply_with (- 1)
   \<and> BRANCH_CHAIN_MATURITY xaneg = 6"
  using step2a_bypass step2a_negative_confirmations step2a_head
  by (simp add: xaneg_def xa_def x0_def)

text \<open>
  C4, amended.  Outside the verify-db fast path, and unless the node is on the main
  chain with \<^verbatim>\<open>-unchecknoconfigbranch\<close> set and has no valid RPC configuration of the source
  branch, \<^verbatim>\<open>CheckBranchTransaction\<close> accepts only if a valid RPC configuration of the
  source chain exists and the reply to \<^verbatim>\<open>getbranchchaintransaction\<close> decodes to a
  transaction whose hash string equals that of the step-1 transaction and reports a
  number \<open>i\<close> of confirmations that, when it is not negative, is at least
  \<^verbatim>\<open>BRANCH_CHAIN_MATURITY + 1\<close>.  When the source chain has a valid configuration and its
  reply reports a number of confirmations that is not negative and is less than
  \<^verbatim>\<open>BRANCH_CHAIN_MATURITY + 1\<close>, the transaction is not accepted.  Nothing is said of a
  negative number of confirmations.  \<^verbatim>\<open>BRANCH_CHAIN_MATURITY + 1\<close> is the sum as the source
  computes it, which is the integer \<^verbatim>\<open>BRANCH_CHAIN_MATURITY\<close> plus one unless the constant
  is the largest 32-bit value.
\<close>

theorem step2_source_chain_confirmation:
  "(CheckBranchTransaction x nd stx fVerifingDB pFromTx = Accept
      \<and> \<not> (fVerifingDB \<and> uncheckbranchtxinverifydb nd)
      \<and> \<not> (IsMainChain nd \<and> unchecknoconfigbranch nd
             \<and> (\<forall>cfg. GetRpcConfig nd (fromBranchId stx) = Some cfg \<longrightarrow> \<not> IsValid cfg))
    \<longrightarrow> (\<exists>txTrans1 cfg hex mtxTrans1 i.
           pFromTx = Some txTrans1
           \<and> GetRpcConfig nd (fromBranchId stx) = Some cfg \<and> IsValid cfg
           \<and> get_str (find_value (find_value
                  (CallRPC x cfg ''getbranchchaintransaction''
                     [VSTR (ToString x (GetHash x txTrans1))]) ''result'') ''hex'') = Some hex
           \<and> DecodeHexTx x hex = Some mtxTrans1
           \<and> ToString x (GetHash x mtxTrans1) = ToString x (GetHash x txTrans1)
           \<and> find_value (find_value
                  (CallRPC x cfg ''getbranchchaintransaction''
                     [VSTR (ToString x (GetHash x txTrans1))]) ''result'') ''confirmations''
               = VNUM i
           \<and> (0 \<le> i \<longrightarrow> uint (BRANCH_CHAIN_MATURITY x + 1) \<le> i)))
   \<and> (\<not> (fVerifingDB \<and> uncheckbranchtxinverifydb nd)
        \<and> GetRpcConfig nd (fromBranchId stx) = Some cfg' \<and> IsValid cfg'
        \<and> find_value (find_value
               (CallRPC x cfg' ''getbranchchaintransaction''
                  [VSTR (ToString x (GetHash x txTrans1'))]) ''result'') ''confirmations'' = VNUM j
        \<and> 0 \<le> j \<and> j < uint (BRANCH_CHAIN_MATURITY x + 1)
      \<longrightarrow> CheckBranchTransaction x nd stx fVerifingDB (Some txTrans1') \<noteq> Accept)
   \<and> (BRANCH_CHAIN_MATURITY x \<noteq> - 1
      \<longrightarrow> uint (BRANCH_CHAIN_MATURITY x + 1) = uint (BRANCH_CHAIN_MATURITY x) + 1)"
proof (intro conjI impI)
  assume a: "CheckBranchTransaction x nd stx fVerifingDB pFromTx = Accept
      \<and> \<not> (fVerifingDB \<and> uncheckbranchtxinverifydb nd)
      \<and> \<not> (IsMainChain nd \<and> unchecknoconfigbranch nd
             \<and> (\<forall>cfg. GetRpcConfig nd (fromBranchId stx) = Some cfg \<longrightarrow> \<not> IsValid cfg))"
  then obtain txTrans1 cfg where p: "pFromTx = Some txTrans1"
      "GetRpcConfig nd (fromBranchId stx) = Some cfg" "IsValid cfg"
      "branch_tx_rpc x cfg (ToString x (GetHash x txTrans1)) = Accept"
    unfolding CheckBranchTransaction_def
    by (auto split: if_splits option.splits)
  from branch_tx_rpc_confirmed [OF p(4)] p(1,2,3)
  show "\<exists>txTrans1 cfg hex mtxTrans1 i.
           pFromTx = Some txTrans1
           \<and> GetRpcConfig nd (fromBranchId stx) = Some cfg \<and> IsValid cfg
           \<and> get_str (find_value (find_value
                  (CallRPC x cfg ''getbranchchaintransaction''
                     [VSTR (ToString x (GetHash x txTrans1))]) ''result'') ''hex'') = Some hex
           \<and> DecodeHexTx x hex = Some mtxTrans1
           \<and> ToString x (GetHash x mtxTrans1) = ToString x (GetHash x txTrans1)
           \<and> find_value (find_value
                  (CallRPC x cfg ''getbranchchaintransaction''
                     [VSTR (ToString x (GetHash x txTrans1))]) ''result'') ''confirmations''
               = VNUM i
           \<and> (0 \<le> i \<longrightarrow> uint (BRANCH_CHAIN_MATURITY x + 1) \<le> i)"
    by blast
next
  assume a: "\<not> (fVerifingDB \<and> uncheckbranchtxinverifydb nd)
        \<and> GetRpcConfig nd (fromBranchId stx) = Some cfg' \<and> IsValid cfg'
        \<and> find_value (find_value
               (CallRPC x cfg' ''getbranchchaintransaction''
                  [VSTR (ToString x (GetHash x txTrans1'))]) ''result'') ''confirmations'' = VNUM j
        \<and> 0 \<le> j \<and> j < uint (BRANCH_CHAIN_MATURITY x + 1)"
  then have "branch_tx_rpc x cfg' (ToString x (GetHash x txTrans1')) \<noteq> Accept"
    using branch_tx_rpc_immature by blast
  then show "CheckBranchTransaction x nd stx fVerifingDB (Some txTrans1') \<noteq> Accept"
    using a unfolding CheckBranchTransaction_def by (auto split: if_splits)
next
  assume "BRANCH_CHAIN_MATURITY x \<noteq> - 1"
  then show "uint (BRANCH_CHAIN_MATURITY x + 1) = uint (BRANCH_CHAIN_MATURITY x) + 1"
    by (rule maturity_plus_one)
qed

theorem step2_source_chain_confirmation_witness:
  "CheckBranchTransaction xa nd_flag step2a False (Some step1a) = Accept
   \<and> IsMainChain nd_flag \<and> unchecknoconfigbranch nd_flag
   \<and> GetRpcConfig nd_flag (fromBranchId step2a) = Some cfg1 \<and> IsValid cfg1
   \<and> CallRPC xa cfg1 ''getbranchchaintransaction'' [VSTR ''64''] = reply_with 7
   \<and> CallRPC xa6 cfg1 ''getbranchchaintransaction'' [VSTR ''64''] = reply_with 6
   \<and> BRANCH_CHAIN_MATURITY xa \<noteq> - 1 \<and> uint (BRANCH_CHAIN_MATURITY xa) + 1 = 7
   \<and> uint (BRANCH_CHAIN_MATURITY xa + 1) = 7
   \<and> uint (BRANCH_CHAIN_MATURITY xa6 + 1) = 7
   \<and> CheckBranchTransaction xa6 nd_flag step2a False (Some step1a) = Fail"
  using step2_source_chain_confirmation [where x = xa and nd = nd_flag and stx = step2a
      and fVerifingDB = False and pFromTx = "Some step1a"]
    step2_source_chain_confirmation [where x = xa6 and nd = nd_flag and stx = step2a
      and fVerifingDB = False and txTrans1' = step1a and cfg' = cfg1 and j = 6]
    step2a_flag_accept step2a_flag_immature step2a_head
  by (simp add: xa_def xa6_def x0_def)

section \<open>Properties of the lock and unlock checks\<close>

text \<open>
  When the RPC to the main chain is made and the reply carries a number of
  confirmations, each of the two functions accepts exactly when the reply has no error,
  the confirmations are at least 60 (and fit an \<^verbatim>\<open>int\<close>), the returned transaction
  decodes and names this branch, and the returned coin hash is present and parses to
  the \<^verbatim>\<open>coinpreouthash\<close> of the transaction.
\<close>

lemma get_int_Some: "get_int (VNUM i) = Some c \<longleftrightarrow> - (2 ^ 31) \<le> i \<and> i < 2 ^ 31 \<and> c = word_of_int i"
  by auto

lemma get_int_sint: "get_int (VNUM i) = Some c \<Longrightarrow> sint c = i"
  by (auto simp: sint_sbintrunc' signed_take_bit_int_eq_self split: if_splits)

lemma get_int_None: "get_int (VNUM i) = None \<longleftrightarrow> \<not> (- (2 ^ 31) \<le> i \<and> i < 2 ^ 31)"
  by auto

lemma lock_accept_iff:
  assumes "IsLockMortgageMineCoin t" and "GetRpcConfig nd MAIN = Some cfg" and "IsValid cfg"
    and "CallRPC x cfg ''getreporttxdata'' [VSTR (ToString x (reporttxid t))] = reply"
    and "find_value reply ''result'' = result"
    and "find_value result ''confirmations'' = VNUM i"
  shows "CheckLockMortgageMineCoinTx x nd t = Accept \<longleftrightarrow>
     find_value reply ''error'' = VNULL
     \<and> REPORT_LOCK_COIN_HEIGHT \<le> i \<and> i < 2 ^ 31
     \<and> (\<exists>hex mtxReport rd. find_value result ''txhex'' = VSTR hex
            \<and> DecodeHexTx x hex = Some mtxReport \<and> IsReport mtxReport
            \<and> pReportData mtxReport = Some rd \<and> reportedBranchId rd = GetBranchHash nd)
     \<and> find_value result ''preminecoinvouthash'' \<noteq> VNULL
     \<and> SafeParseHashV x (find_value result ''preminecoinvouthash'') = Some (coinpreouthash t)"
proof (cases "find_value reply ''error'' = VNULL \<and> (\<exists>hex. find_value result ''txhex'' = VSTR hex)
               \<and> find_value result ''preminecoinvouthash'' \<noteq> VNULL")
  case False
  have "result = VNULL \<Longrightarrow> find_value result ''confirmations'' = VNULL" by simp
  then have rn: "\<not> isNull result" using assms(6) by (cases result) auto
  have "CheckLockMortgageMineCoinTx x nd t \<noteq> Accept"
    using False assms rn unfolding CheckLockMortgageMineCoinTx_def
    by (cases "find_value reply ''error''"; cases "find_value result ''txhex''";
        cases "find_value result ''preminecoinvouthash''")
       (auto simp: Let_def)
  then show ?thesis using False by auto
next
  case True
  then obtain hex where h: "find_value reply ''error'' = VNULL" "find_value result ''txhex'' = VSTR hex"
      "find_value result ''preminecoinvouthash'' \<noteq> VNULL" by blast
  have rn: "\<not> isNull result" using assms(6) by (cases result) auto
  have pn: "\<not> isNull (find_value result ''preminecoinvouthash'')"
    using h(3) by (cases "find_value result ''preminecoinvouthash''") auto
  show ?thesis
  proof (cases "get_int (VNUM i)")
    case None
    then show ?thesis using assms h rn pn unfolding CheckLockMortgageMineCoinTx_def
      by (auto simp: Let_def REPORT_LOCK_COIN_HEIGHT_def split: if_splits)
  next
    case (Some c)
    then have "sint c = i" "i < 2 ^ 31" using get_int_sint by (auto split: if_splits)
    then show ?thesis using assms h rn pn Some unfolding CheckLockMortgageMineCoinTx_def
      by (auto simp: Let_def split: option.splits)
  qed
qed

lemma unlock_accept_iff:
  assumes "IsUnLockMortgageMineCoin t" and "GetRpcConfig nd ''main'' = Some cfg" and "IsValid cfg"
    and "CallRPC x cfg ''getprovetxdata'' [VSTR (ToString x (provetxid t))] = reply"
    and "find_value reply ''result'' = result"
    and "find_value result ''confirmations'' = VNUM i"
  shows "CheckUnlockMortgageMineCoinTx x nd t = Accept \<longleftrightarrow>
     find_value reply ''error'' = VNULL
     \<and> REPORT_LOCK_COIN_HEIGHT \<le> i \<and> i < 2 ^ 31
     \<and> (\<exists>hex mtxProve rd. find_value result ''txhex'' = VSTR hex
            \<and> DecodeHexTx x hex = Some mtxProve
            \<and> pProveData mtxProve = Some rd \<and> branchId rd = GetBranchHash nd)
     \<and> find_value result ''preminecoinvouthash'' \<noteq> VNULL
     \<and> SafeParseHashV x (find_value result ''preminecoinvouthash'') = Some (coinpreouthash t)"
proof (cases "find_value reply ''error'' = VNULL \<and> (\<exists>hex. find_value result ''txhex'' = VSTR hex)
               \<and> find_value result ''preminecoinvouthash'' \<noteq> VNULL")
  case False
  have "result = VNULL \<Longrightarrow> find_value result ''confirmations'' = VNULL" by simp
  then have rn: "\<not> isNull result" using assms(6) by (cases result) auto
  have "CheckUnlockMortgageMineCoinTx x nd t \<noteq> Accept"
    using False assms rn unfolding CheckUnlockMortgageMineCoinTx_def
    by (cases "find_value reply ''error''"; cases "find_value result ''txhex''";
        cases "find_value result ''preminecoinvouthash''")
       (auto simp: Let_def)
  then show ?thesis using False by auto
next
  case True
  then obtain hex where h: "find_value reply ''error'' = VNULL" "find_value result ''txhex'' = VSTR hex"
      "find_value result ''preminecoinvouthash'' \<noteq> VNULL" by blast
  have rn: "\<not> isNull result" using assms(6) by (cases result) auto
  have pn: "\<not> isNull (find_value result ''preminecoinvouthash'')"
    using h(3) by (cases "find_value result ''preminecoinvouthash''") auto
  show ?thesis
  proof (cases "get_int (VNUM i)")
    case None
    then show ?thesis using assms h rn pn unfolding CheckUnlockMortgageMineCoinTx_def
      by (auto simp: Let_def REPORT_LOCK_COIN_HEIGHT_def split: if_splits)
  next
    case (Some c)
    then have "sint c = i" "i < 2 ^ 31" using get_int_sint by (auto split: if_splits)
    then show ?thesis using assms h rn pn Some unfolding CheckUnlockMortgageMineCoinTx_def
      by (auto simp: Let_def split: option.splits)
  qed
qed

text \<open>
  C8.  Whenever the main chain returns the report (for \<^verbatim>\<open>CheckLockMortgageMineCoinTx\<close>) or
  the prove (for \<^verbatim>\<open>CheckUnlockMortgageMineCoinTx\<close>) with fewer than
  \<^verbatim>\<open>REPORT_LOCK_COIN_HEIGHT\<close> = 60 confirmations, the function does not accept.  With 60
  or more it goes on, and accepts exactly when the reply has no error, the returned
  transaction decodes to a report (a transaction with prove data) that references this
  branch's hash, and the returned \<^verbatim>\<open>preminecoinvouthash\<close> parses to the \<^verbatim>\<open>coinpreouthash\<close>
  of the transaction.
\<close>

theorem lock_unlock_need_confirmations:
  "REPORT_LOCK_COIN_HEIGHT = 60
   \<and> (IsLockMortgageMineCoin t \<and> GetRpcConfig nd MAIN = Some cfg \<and> IsValid cfg
        \<and> CallRPC x cfg ''getreporttxdata'' [VSTR (ToString x (reporttxid t))] = reply
        \<and> find_value reply ''result'' = result
        \<and> find_value result ''confirmations'' = VNUM i
      \<longrightarrow> (i < 60 \<longrightarrow> CheckLockMortgageMineCoinTx x nd t \<noteq> Accept)
          \<and> (CheckLockMortgageMineCoinTx x nd t = Accept \<longleftrightarrow>
                find_value reply ''error'' = VNULL \<and> 60 \<le> i \<and> i < 2 ^ 31
                \<and> (\<exists>hex mtxReport rd. find_value result ''txhex'' = VSTR hex
                       \<and> DecodeHexTx x hex = Some mtxReport \<and> IsReport mtxReport
                       \<and> pReportData mtxReport = Some rd
                       \<and> reportedBranchId rd = GetBranchHash nd)
                \<and> find_value result ''preminecoinvouthash'' \<noteq> VNULL
                \<and> SafeParseHashV x (find_value result ''preminecoinvouthash'')
                    = Some (coinpreouthash t)))
   \<and> (IsUnLockMortgageMineCoin t' \<and> GetRpcConfig nd ''main'' = Some cfg \<and> IsValid cfg
        \<and> CallRPC x cfg ''getprovetxdata'' [VSTR (ToString x (provetxid t'))] = reply'
        \<and> find_value reply' ''result'' = result'
        \<and> find_value result' ''confirmations'' = VNUM i'
      \<longrightarrow> (i' < 60 \<longrightarrow> CheckUnlockMortgageMineCoinTx x nd t' \<noteq> Accept)
          \<and> (CheckUnlockMortgageMineCoinTx x nd t' = Accept \<longleftrightarrow>
                find_value reply' ''error'' = VNULL \<and> 60 \<le> i' \<and> i' < 2 ^ 31
                \<and> (\<exists>hex mtxProve pd. find_value result' ''txhex'' = VSTR hex
                       \<and> DecodeHexTx x hex = Some mtxProve
                       \<and> pProveData mtxProve = Some pd \<and> branchId pd = GetBranchHash nd)
                \<and> find_value result' ''preminecoinvouthash'' \<noteq> VNULL
                \<and> SafeParseHashV x (find_value result' ''preminecoinvouthash'')
                    = Some (coinpreouthash t')))"
proof (intro conjI impI)
  show "REPORT_LOCK_COIN_HEIGHT = 60" by (simp add: REPORT_LOCK_COIN_HEIGHT_def)
next
  assume a: "IsLockMortgageMineCoin t \<and> GetRpcConfig nd MAIN = Some cfg \<and> IsValid cfg
        \<and> CallRPC x cfg ''getreporttxdata'' [VSTR (ToString x (reporttxid t))] = reply
        \<and> find_value reply ''result'' = result
        \<and> find_value result ''confirmations'' = VNUM i"
  then have iff: "CheckLockMortgageMineCoinTx x nd t = Accept \<longleftrightarrow>
                find_value reply ''error'' = VNULL \<and> 60 \<le> i \<and> i < 2 ^ 31
                \<and> (\<exists>hex mtxReport rd. find_value result ''txhex'' = VSTR hex
                       \<and> DecodeHexTx x hex = Some mtxReport \<and> IsReport mtxReport
                       \<and> pReportData mtxReport = Some rd
                       \<and> reportedBranchId rd = GetBranchHash nd)
                \<and> find_value result ''preminecoinvouthash'' \<noteq> VNULL
                \<and> SafeParseHashV x (find_value result ''preminecoinvouthash'')
                    = Some (coinpreouthash t)"
    using lock_accept_iff [of t nd cfg x reply result i]
    by (simp add: REPORT_LOCK_COIN_HEIGHT_def)
  then show "CheckLockMortgageMineCoinTx x nd t = Accept \<longleftrightarrow>
                find_value reply ''error'' = VNULL \<and> 60 \<le> i \<and> i < 2 ^ 31
                \<and> (\<exists>hex mtxReport rd. find_value result ''txhex'' = VSTR hex
                       \<and> DecodeHexTx x hex = Some mtxReport \<and> IsReport mtxReport
                       \<and> pReportData mtxReport = Some rd
                       \<and> reportedBranchId rd = GetBranchHash nd)
                \<and> find_value result ''preminecoinvouthash'' \<noteq> VNULL
                \<and> SafeParseHashV x (find_value result ''preminecoinvouthash'')
                    = Some (coinpreouthash t)" .
  assume "i < 60"
  then show "CheckLockMortgageMineCoinTx x nd t \<noteq> Accept" using iff by simp
next
  assume a: "IsUnLockMortgageMineCoin t' \<and> GetRpcConfig nd ''main'' = Some cfg \<and> IsValid cfg
        \<and> CallRPC x cfg ''getprovetxdata'' [VSTR (ToString x (provetxid t'))] = reply'
        \<and> find_value reply' ''result'' = result'
        \<and> find_value result' ''confirmations'' = VNUM i'"
  then have iff: "CheckUnlockMortgageMineCoinTx x nd t' = Accept \<longleftrightarrow>
                find_value reply' ''error'' = VNULL \<and> 60 \<le> i' \<and> i' < 2 ^ 31
                \<and> (\<exists>hex mtxProve pd. find_value result' ''txhex'' = VSTR hex
                       \<and> DecodeHexTx x hex = Some mtxProve
                       \<and> pProveData mtxProve = Some pd \<and> branchId pd = GetBranchHash nd)
                \<and> find_value result' ''preminecoinvouthash'' \<noteq> VNULL
                \<and> SafeParseHashV x (find_value result' ''preminecoinvouthash'')
                    = Some (coinpreouthash t')"
    using unlock_accept_iff [of t' nd cfg x reply' result' i']
    by (simp add: REPORT_LOCK_COIN_HEIGHT_def)
  then show "CheckUnlockMortgageMineCoinTx x nd t' = Accept \<longleftrightarrow>
                find_value reply' ''error'' = VNULL \<and> 60 \<le> i' \<and> i' < 2 ^ 31
                \<and> (\<exists>hex mtxProve pd. find_value result' ''txhex'' = VSTR hex
                       \<and> DecodeHexTx x hex = Some mtxProve
                       \<and> pProveData mtxProve = Some pd \<and> branchId pd = GetBranchHash nd)
                \<and> find_value result' ''preminecoinvouthash'' \<noteq> VNULL
                \<and> SafeParseHashV x (find_value result' ''preminecoinvouthash'')
                    = Some (coinpreouthash t')" .
  assume "i' < 60"
  then show "CheckUnlockMortgageMineCoinTx x nd t' \<noteq> Accept" using iff by simp
qed

lemma lock1_eval:
  "CheckLockMortgageMineCoinTx (xl 60) nd_branch lock1 = Accept
   \<and> CheckLockMortgageMineCoinTx (xl 59) nd_branch lock1 = Fail
   \<and> CheckUnlockMortgageMineCoinTx (xl 60) nd_branch unlock1 = Accept
   \<and> CheckUnlockMortgageMineCoinTx (xl 59) nd_branch unlock1
       = Reject 0 REJECT_INVALID (''%s: Need 60 blocks to be mature, now is %d'' @ endl)"
  by (simp add: CheckLockMortgageMineCoinTx_def CheckUnlockMortgageMineCoinTx_def
      IsLockMortgageMineCoin_def IsUnLockMortgageMineCoin_def lock1_def unlock1_def tx0_def
      nd_branch_def nd0_def GetRpcConfig_def MAIN_def IsValid_def cfg1_def xl_def x0_def
      coin_reply_def REPORT_LOCK_COIN_HEIGHT_def report1_def prove7_def IsReport_def)

theorem lock_unlock_need_confirmations_witness:
  "IsLockMortgageMineCoin lock1 \<and> IsUnLockMortgageMineCoin unlock1
   \<and> GetRpcConfig nd_branch MAIN = Some cfg1 \<and> IsValid cfg1
   \<and> CallRPC (xl 60) cfg1 ''getreporttxdata'' [VSTR (ToString (xl 60) (reporttxid lock1))]
       = coin_reply ''rr'' 60
   \<and> CallRPC (xl 59) cfg1 ''getprovetxdata'' [VSTR (ToString (xl 59) (provetxid unlock1))]
       = coin_reply ''pp'' 59
   \<and> CheckLockMortgageMineCoinTx (xl 60) nd_branch lock1 = Accept
   \<and> CheckLockMortgageMineCoinTx (xl 59) nd_branch lock1 = Fail
   \<and> CheckUnlockMortgageMineCoinTx (xl 60) nd_branch unlock1 = Accept
   \<and> CheckUnlockMortgageMineCoinTx (xl 59) nd_branch unlock1
       = Reject 0 REJECT_INVALID (''%s: Need 60 blocks to be mature, now is %d'' @ endl)"
  using lock_unlock_need_confirmations [where x = "xl 60" and nd = nd_branch and t = lock1
      and cfg = cfg1 and i = 60 and t' = unlock1 and i' = 60]
    lock_unlock_need_confirmations [where x = "xl 59" and nd = nd_branch and t = lock1
      and cfg = cfg1 and i = 59 and t' = unlock1 and i' = 59]
    lock1_eval
  by (simp add: IsLockMortgageMineCoin_def IsUnLockMortgageMineCoin_def lock1_def unlock1_def
      tx0_def nd_branch_def nd0_def GetRpcConfig_def MAIN_def IsValid_def cfg1_def xl_def)

section \<open>Properties of the block signer\<close>









end
